theory Spec2Isabelle
  imports Main
begin

section \<open>Values, errors and dictionaries\<close>

text \<open>
  The library under study (\<^verbatim>\<open>serializable/__init__.py\<close>) maps Python objects to JSON and
  XML documents and back. Its functions work on Python values, on
  \<^verbatim>\<open>xml.etree.ElementTree\<close> elements and on the class-level dictionaries of
  \<^verbatim>\<open>ObjectMetadataLibrary\<close>. Text is modelled as \<^typ>\<open>string\<close>, restricted to ASCII.
\<close>

datatype error =
    ValueError string
  | TypeError string
  | AttributeError string
  | NameError string
  | Raised string

text \<open>
  \<^verbatim>\<open>ValueError\<close> carries the message the source builds. \<^verbatim>\<open>TypeError\<close> and
  \<^verbatim>\<open>AttributeError\<close> are raised by the interpreter; their text here is descriptive only.
  \<^verbatim>\<open>Raised\<close> is any exception of code that the library calls but does not contain
  (constructors, custom serializers). \<^verbatim>\<open>NameError\<close> stands for a reference to a class
  that the class table below does not hold, which Python cannot express.
\<close>

datatype cref = CRef (c_module: string) (c_qualname: string) (c_name: string)

text \<open>
  A float is carried as the text that \<^verbatim>\<open>str\<close> gives it: the library never computes
  with one. An enum member has its class name and its \<^verbatim>\<open>value\<close>. An
  object has the identity of its class and its \<^verbatim>\<open>__dict__\<close>, in insertion order.
\<close>

datatype pyval =
    PNone
  | PBool bool
  | PInt int
  | PFloat string
  | PStr string
  | PList "pyval list"
  | PSet "pyval list"
  | PDict "(string \<times> pyval) list"
  | PEnum string pyval
  | PObj cref "(string \<times> pyval) list"

type_synonym 'v pydict = "(string \<times> 'v) list"

definition dict_get :: "('k \<times> 'v) list \<Rightarrow> 'k \<Rightarrow> 'v option" where
  "dict_get d k = map_of d k"

definition dict_keys :: "('k \<times> 'v) list \<Rightarrow> 'k list" where
  "dict_keys d = map fst d"

definition dict_values :: "('k \<times> 'v) list \<Rightarrow> 'v list" where
  "dict_values d = map snd d"

fun dict_set :: "('k \<times> 'v) list \<Rightarrow> 'k \<Rightarrow> 'v \<Rightarrow> ('k \<times> 'v) list" where
  "dict_set [] k v = [(k, v)]"
| "dict_set ((k', v') # d) k v =
     (if k' = k then (k', v) # d else (k', v') # dict_set d k v)"

definition dict_del :: "('k \<times> 'v) list \<Rightarrow> 'k \<Rightarrow> ('k \<times> 'v) list" where
  "dict_del d k = filter (\<lambda>kv. fst kv \<noteq> k) d"

text \<open>
  \<^verbatim>\<open>list(d.keys())[list(d.values()).index(x)]\<close>: the key of the first entry whose value
  is \<open>x\<close>. The source evaluates it only after testing \<^verbatim>\<open>x in d.values()\<close>.
\<close>

fun key_of_value :: "string pydict \<Rightarrow> string \<Rightarrow> string option" where
  "key_of_value [] x = None"
| "key_of_value ((k, v) # d) x = (if v = x then Some k else key_of_value d x)"

section \<open>The metadata library\<close>

datatype xml_array_serialization_type = FLAT | NESTED

datatype serialization_type = JSON | XML

definition DEFAULT_SERIALIZATION_TYPES :: "serialization_type list" where
  "DEFAULT_SERIALIZATION_TYPES = [JSON, XML]"

text \<open>
  The return annotation of a property getter. \<^verbatim>\<open>Optional[T]\<close> has the arguments
  \<^verbatim>\<open>(T, NoneType)\<close>; a class has no \<^verbatim>\<open>__args__\<close>.
\<close>

datatype pytype =
    TBool | TInt | TFloat | TStr | TNoneType
  | TList pytype
  | TSet pytype
  | TOptional pytype
  | TEnumClass string
  | TClass string

fun type_name :: "pytype \<Rightarrow> string" where
  "type_name TBool = ''bool''"
| "type_name TInt = ''int''"
| "type_name TFloat = ''float''"
| "type_name TStr = ''str''"
| "type_name TNoneType = ''NoneType''"
| "type_name (TList t) = ''List''"
| "type_name (TSet t) = ''Set''"
| "type_name (TOptional t) = ''Optional''"
| "type_name (TEnumClass n) = n"
| "type_name (TClass n) = n"

fun type_args :: "pytype \<Rightarrow> error + pytype list" where
  "type_args (TList t) = Inr [t]"
| "type_args (TSet t) = Inr [t]"
| "type_args (TOptional t) = Inr [t, TNoneType]"
| "type_args t = Inl (AttributeError ''__args__'')"

text \<open>
  A scalar is what a custom type hands to the document: the spec's custom scalar codec.
  A custom type is either a class with \<^verbatim>\<open>serialize\<close> and \<^verbatim>\<open>deserialize\<close>
  (\<^verbatim>\<open>SimpleSerializable\<close>) or another callable.
\<close>

datatype scalar = SNone | SBool bool | SInt int | SFloat string | SStr string

fun scalar_val :: "scalar \<Rightarrow> pyval" where
  "scalar_val SNone = PNone"
| "scalar_val (SBool b) = PBool b"
| "scalar_val (SInt i) = PInt i"
| "scalar_val (SFloat f) = PFloat f"
| "scalar_val (SStr s) = PStr s"

datatype custom_type =
    CustomSerializer "pyval \<Rightarrow> error + scalar" "pyval \<Rightarrow> error + pyval"
  | CustomCallable "pyval \<Rightarrow> error + scalar"

text \<open>
  \<^verbatim>\<open>custom_names\<close> of a property is the very dictionary stored in
  \<^verbatim>\<open>_klass_property_names\<close> when one exists at registration (\<open>Shared\<close>, read through the
  library), else a fresh empty one (\<open>Own\<close>).
\<close>

datatype names_ref = Shared string | Own "(serialization_type \<times> string) list"

record serializable_class =
  sc_name :: string
  sc_custom_name :: "string option"
  sc_serialization_types :: "serialization_type list"

record serializable_property =
  sp_name :: string
  sp_custom_names :: names_ref
  sp_type :: "pytype option"
  sp_custom_type :: "custom_type option"
  sp_is_xml_attribute :: bool
  sp_xml_array_config :: "(xml_array_serialization_type \<times> string) option"

datatype injected = Fn_as_json | Fn_from_json | Fn_as_xml

text \<open>
  The six class attributes of \<^verbatim>\<open>ObjectMetadataLibrary\<close>, and \<open>klass_attrs\<close>: what
  \<^verbatim>\<open>setattr\<close> has put on each class object, by the class's qualified name.
\<close>

record library =
  klass_property_array_config :: "(xml_array_serialization_type \<times> string) pydict"
  klass_property_attributes :: "string set"
  klass_property_names :: "((serialization_type \<times> string) list) pydict"
  klass_property_types :: "custom_type pydict"
  klass_mappings :: "serializable_class pydict"
  klass_property_mappings :: "(serializable_property pydict) pydict"
  klass_attrs :: "(injected pydict) pydict"

text \<open>
  A class object. Registration reads its names and, from
  \<^verbatim>\<open>inspect.getmembers(klass, is_property)\<close>, each property with the return annotation of
  its getter. The decoders read the hooks that \<^verbatim>\<open>SerializableObject\<close>,
  \<^verbatim>\<open>JsonSerializableObject\<close> and \<^verbatim>\<open>XmlSerializableObject\<close> declare (a class has a
  hook when it derives from the base that declares it),
  the names in \<^verbatim>\<open>cls.__dict__\<close>, and call the constructor, which is the class's own code:
  \<open>k_init args kwargs\<close>.

  A hook may name another type (\<^verbatim>\<open>AnySerializable\<close>): a class of the program, by its
  qualified name; a \<^verbatim>\<open>SimpleSerializable\<close> with its \<^verbatim>\<open>serialize\<close>, its
  \<^verbatim>\<open>deserialize\<close> and its constructor applied to one argument; or another callable,
  such as an enum class.

  \<open>k_bases\<close> is \<^verbatim>\<open>cls.__mro__\<close> after the class itself, in its order: the classes of the
  program by qualified name, and \<^verbatim>\<open>JsonSerializableObject\<close> and \<^verbatim>\<open>XmlSerializableObject\<close>
  (\<^verbatim>\<open>SerializableObject\<close>, which both derive from, and \<^verbatim>\<open>object\<close> are left out).
\<close>

datatype mapped =
    MappedClass string
  | MappedSimple "pyval \<Rightarrow> error + scalar" "pyval \<Rightarrow> error + pyval"
      "pyval \<Rightarrow> error + pyval"
  | MappedCallable "pyval \<Rightarrow> error + pyval"

datatype base = JsonSerializableObject | XmlSerializableObject | ProgramClass string

record klass =
  k_module :: string
  k_name :: string
  k_qualname :: string
  k_properties :: "(string \<times> pytype option) list"
  k_bases :: "base list"
  k_dict :: "string list"
  k_json_key_removals :: "string list"
  k_property_key_mappings :: "string pydict"
  k_property_data_class_mappings :: "mapped pydict"
  k_array_property_configuration :: "(xml_array_serialization_type \<times> string \<times> mapped) pydict"
  k_properties_as_attributes :: "string set"
  k_init :: "pyval list \<Rightarrow> pyval pydict \<Rightarrow> error + pyval"

text \<open>A class derives from \<^verbatim>\<open>SerializableObject\<close> when it derives from one of the two.\<close>

definition is_SerializableObject :: "klass \<Rightarrow> bool" where
  "is_SerializableObject k =
     (JsonSerializableObject \<in> set (k_bases k) \<or> XmlSerializableObject \<in> set (k_bases k))"

definition qualified_class_name :: "klass \<Rightarrow> string" where
  "qualified_class_name k = k_module k @ ''.'' @ k_qualname k"

text \<open>
  \<^verbatim>\<open>type(klass) is Type\<close>: the type of a class is its metaclass, and \<^verbatim>\<open>typing.Type\<close>
  is not a metaclass, so the test is false for every class.
  \<^verbatim>\<open>klass in cls.klass_mappings\<close>: the keys are strings, and a class object is equal to
  no string.
\<close>

definition type_is_typing_Type :: "klass \<Rightarrow> bool" where
  "type_is_typing_Type k = False"

definition klass_in_keys :: "klass \<Rightarrow> string list \<Rightarrow> bool" where
  "klass_in_keys k ks = False"

definition is_klass_serializable :: "library \<Rightarrow> klass \<Rightarrow> bool" where
  "is_klass_serializable lib k =
     (if type_is_typing_Type k
      then (k_module k @ ''.'' @ k_name k) \<in> set (dict_keys (klass_mappings lib))
      else klass_in_keys k (dict_keys (klass_mappings lib)))"

definition new_property :: "library \<Rightarrow> string \<Rightarrow> string \<Rightarrow> pytype option \<Rightarrow> serializable_property" where
  "new_property lib qualified_property_name name ann =
     \<lparr> sp_name = name,
       sp_custom_names =
         (case dict_get (klass_property_names lib) qualified_property_name of
            Some d \<Rightarrow> Shared qualified_property_name
          | None \<Rightarrow> Own []),
       sp_type = ann,
       sp_custom_type = dict_get (klass_property_types lib) qualified_property_name,
       sp_is_xml_attribute = (qualified_property_name \<in> klass_property_attributes lib),
       sp_xml_array_config = dict_get (klass_property_array_config lib) qualified_property_name \<rparr>"

definition add_property :: "string \<Rightarrow> library \<Rightarrow> string \<times> pytype option \<Rightarrow> library" where
  "add_property qualified_class_name' lib m =
     (case m of (name, ann) \<Rightarrow>
        lib\<lparr>klass_property_mappings :=
          dict_set (klass_property_mappings lib) qualified_class_name'
            (dict_set
               (case dict_get (klass_property_mappings lib) qualified_class_name' of
                  Some ps \<Rightarrow> ps | None \<Rightarrow> [])
               name
               (new_property lib (qualified_class_name' @ ''.'' @ name) name ann))\<rparr>)"

definition setattr :: "library \<Rightarrow> string \<Rightarrow> string \<Rightarrow> injected \<Rightarrow> library" where
  "setattr lib q name f =
     lib\<lparr>klass_attrs :=
       dict_set (klass_attrs lib) q
         (dict_set (case dict_get (klass_attrs lib) q of Some a \<Rightarrow> a | None \<Rightarrow> []) name f)\<rparr>"

definition getattr :: "library \<Rightarrow> string \<Rightarrow> string \<Rightarrow> injected option" where
  "getattr lib q name =
     (case dict_get (klass_attrs lib) q of None \<Rightarrow> None | Some a \<Rightarrow> dict_get a name)"

definition register_klass :: "library \<Rightarrow> klass \<Rightarrow> string option \<Rightarrow> serialization_type list \<Rightarrow> library" where
  "register_klass lib k a serialization_types =
     (if is_klass_serializable lib k then lib
      else
        let q = qualified_class_name k;
            lib1 = lib\<lparr>klass_mappings :=
                     dict_set (klass_mappings lib) q
                       \<lparr> sc_name = k_name k, sc_custom_name = None,
                         sc_serialization_types = serialization_types \<rparr>\<rparr>;
            lib2 = lib1\<lparr>klass_property_mappings := dict_set (klass_property_mappings lib1) q []\<rparr>;
            lib3 = foldl (add_property q) lib2 (k_properties k);
            lib4 = (if JSON \<in> set serialization_types
                    then setattr (setattr lib3 q ''as_json'' Fn_as_json) q ''from_json'' Fn_from_json
                    else lib3);
            lib5 = (if XML \<in> set serialization_types
                    then setattr lib4 q ''as_xml'' Fn_as_xml
                    else lib4)
        in lib5)"

definition serializable_class :: "library \<Rightarrow> klass \<Rightarrow> string option \<Rightarrow> serialization_type list option \<Rightarrow> library" where
  "serializable_class lib k name serialization_types =
     register_klass lib k name
       (case serialization_types of None \<Rightarrow> DEFAULT_SERIALIZATION_TYPES | Some ts \<Rightarrow> ts)"

definition register_xml_property_attribute :: "library \<Rightarrow> string \<Rightarrow> library" where
  "register_xml_property_attribute lib qual_name =
     lib\<lparr>klass_property_attributes := insert qual_name (klass_property_attributes lib)\<rparr>"

definition register_xml_property_array_config ::
  "library \<Rightarrow> string \<Rightarrow> xml_array_serialization_type \<Rightarrow> string \<Rightarrow> library" where
  "register_xml_property_array_config lib qual_name array_type child_name =
     lib\<lparr>klass_property_array_config :=
       dict_set (klass_property_array_config lib) qual_name (array_type, child_name)\<rparr>"

definition register_property_type_mapping :: "library \<Rightarrow> string \<Rightarrow> custom_type \<Rightarrow> library" where
  "register_property_type_mapping lib qual_name mapped_type =
     lib\<lparr>klass_property_types := dict_set (klass_property_types lib) qual_name mapped_type\<rparr>"

definition register_custom_property_name ::
  "serialization_type \<Rightarrow> library \<Rightarrow> string \<Rightarrow> string \<Rightarrow> library" where
  "register_custom_property_name t lib qual_name property_name =
     lib\<lparr>klass_property_names :=
       dict_set (klass_property_names lib) qual_name
         (case dict_get (klass_property_names lib) qual_name of
            Some d \<Rightarrow> dict_set d t property_name
          | None \<Rightarrow> [(t, property_name)])\<rparr>"

definition register_custom_json_property_name :: "library \<Rightarrow> string \<Rightarrow> string \<Rightarrow> library" where
  "register_custom_json_property_name = register_custom_property_name JSON"

definition register_custom_xml_property_name :: "library \<Rightarrow> string \<Rightarrow> string \<Rightarrow> library" where
  "register_custom_xml_property_name = register_custom_property_name XML"

definition empty_library :: library where
  "empty_library =
     \<lparr> klass_property_array_config = [], klass_property_attributes = {},
       klass_property_names = [], klass_property_types = [],
       klass_mappings = [], klass_property_mappings = [], klass_attrs = [] \<rparr>"

section \<open>Text, elements and the runtime\<close>

definition digit_char :: "nat \<Rightarrow> char" where
  "digit_char n = char_of (48 + n)"

fun str_nat :: "nat \<Rightarrow> string" where
  "str_nat n = (if n < 10 then [digit_char n] else str_nat (n div 10) @ [digit_char (n mod 10)])"

declare str_nat.simps [simp del]

definition str_int :: "int \<Rightarrow> string" where
  "str_int i = (if i < 0 then CHR ''-'' # str_nat (nat (- i)) else str_nat (nat i))"

definition lower_char :: "char \<Rightarrow> char" where
  "lower_char c =
     (if 65 \<le> (of_char c :: nat) \<and> (of_char c :: nat) \<le> 90
      then char_of ((of_char c :: nat) + 32) else c)"

definition lower :: "string \<Rightarrow> string" where
  "lower s = map lower_char s"

text \<open>\<^verbatim>\<open>new_key.startswith('_') or '__' in new_key\<close>\<close>

fun has_dunder :: "string \<Rightarrow> bool" where
  "has_dunder (a # b # r) = ((a = CHR ''_'' \<and> b = CHR ''_'') \<or> has_dunder (b # r))"
| "has_dunder r = False"

definition skipped_key :: "string \<Rightarrow> bool" where
  "skipped_key new_key = (take 1 new_key = ''_'' \<or> has_dunder new_key)"

datatype element =
  Element (e_tag: string) (e_attrib: "string pydict") (e_text: "string option")
    (e_children: "element list")

definition append :: "element \<Rightarrow> element \<Rightarrow> element" where
  "append parent child =
     Element (e_tag parent) (e_attrib parent) (e_text parent) (e_children parent @ [child])"

definition set_text :: "element \<Rightarrow> string \<Rightarrow> element" where
  "set_text e s = Element (e_tag e) (e_attrib e) (Some s) (e_children e)"

text \<open>\<^verbatim>\<open>ElementTree.SubElement(parent, name).text = s\<close>\<close>

definition SubElement_text :: "element \<Rightarrow> string \<Rightarrow> string \<Rightarrow> element" where
  "SubElement_text parent name s = append parent (Element name [] (Some s) [])"

text \<open>
  The name formatter lives in the module \<^verbatim>\<open>formatters\<close>, which is not among the sources:
  it is a parameter, and \<^verbatim>\<open>CurrentFormatter.formatter\<close> may be unset.
\<close>

record formatter =
  fmt_encode :: "string \<Rightarrow> string"
  fmt_decode :: "string \<Rightarrow> string"

text \<open>
  What a call depends on beside its arguments: the current formatter, the metadata
  library, the classes of the program by qualified name, \<^verbatim>\<open>str\<close> of a value that is
  not a scalar (left open), and for an element the \<^verbatim>\<open>start-ns\<close> events that
  \<^verbatim>\<open>ElementTree.iterparse\<close> reports for its serialization (\<^verbatim>\<open>ElementTree\<close> is the
  standard library's).
\<close>

record runtime =
  rt_formatter :: "formatter option"
  rt_library :: library
  rt_classes :: "string \<Rightarrow> klass option"
  rt_str :: "pyval \<Rightarrow> string"
  rt_start_ns :: "element \<Rightarrow> (string \<times> string) list"

definition py_str :: "runtime \<Rightarrow> pyval \<Rightarrow> string" where
  "py_str rt v =
     (case v of
        PNone \<Rightarrow> ''None''
      | PBool b \<Rightarrow> (if b then ''True'' else ''False'')
      | PInt i \<Rightarrow> str_int i
      | PFloat f \<Rightarrow> f
      | PStr s \<Rightarrow> s
      | _ \<Rightarrow> rt_str rt v)"

text \<open>\<^verbatim>\<open>if CurrentFormatter.formatter: new_key = CurrentFormatter.formatter.encode(...)\<close>\<close>

definition encode_name :: "runtime \<Rightarrow> string \<Rightarrow> string" where
  "encode_name rt name =
     (case rt_formatter rt of None \<Rightarrow> name | Some f \<Rightarrow> fmt_encode f name)"

text \<open>The unguarded calls \<^verbatim>\<open>CurrentFormatter.formatter.encode\<close> and \<^verbatim>\<open>.decode\<close>.\<close>

definition formatter_encode :: "runtime \<Rightarrow> string \<Rightarrow> error + string" where
  "formatter_encode rt name =
     (case rt_formatter rt of
        None \<Rightarrow> Inl (AttributeError ''encode'')
      | Some f \<Rightarrow> Inr (fmt_encode f name))"

definition formatter_decode :: "runtime \<Rightarrow> string \<Rightarrow> error + string" where
  "formatter_decode rt name =
     (case rt_formatter rt of
        None \<Rightarrow> Inl (AttributeError ''decode'')
      | Some f \<Rightarrow> Inr (fmt_decode f name))"

text \<open>\<^verbatim>\<open>element_name or CurrentFormatter.formatter.encode(self.__class__.__name__)\<close>\<close>

definition root_tag :: "runtime \<Rightarrow> cref \<Rightarrow> string option \<Rightarrow> error + string" where
  "root_tag rt c element_name =
     (case element_name of
        None \<Rightarrow> formatter_encode rt (c_name c)
      | Some n \<Rightarrow> (if n = [] then formatter_encode rt (c_name c) else Inr n))"

definition class_key :: "cref \<Rightarrow> string" where
  "class_key c = c_module c @ ''.'' @ c_qualname c"

text \<open>\<^verbatim>\<open>for j in v\<close>\<close>

definition iter_items :: "pyval \<Rightarrow> error + pyval list" where
  "iter_items v =
     (case v of
        PList xs \<Rightarrow> Inr xs
      | PSet xs \<Rightarrow> Inr xs
      | PStr s \<Rightarrow> Inr (map (\<lambda>c. PStr [c]) s)
      | PDict d \<Rightarrow> Inr (map (\<lambda>k. PStr k) (dict_keys d))
      | _ \<Rightarrow> Inl (TypeError ''object is not iterable''))"

section \<open>Property metadata\<close>

definition ARRAY_TYPES :: "string list" where
  "ARRAY_TYPES = [''List'', ''Set'']"

definition PRIMITIVE_TYPES :: "pytype list" where
  "PRIMITIVE_TYPES = [TBool, TInt, TFloat, TStr]"

definition custom_names :: "library \<Rightarrow> serializable_property \<Rightarrow> (serialization_type \<times> string) list" where
  "custom_names lib p =
     (case sp_custom_names p of
        Own d \<Rightarrow> d
      | Shared q \<Rightarrow> (case dict_get (klass_property_names lib) q of Some d \<Rightarrow> d | None \<Rightarrow> []))"

definition custom_name :: "library \<Rightarrow> serializable_property \<Rightarrow> serialization_type \<Rightarrow> string option" where
  "custom_name lib p t = dict_get (custom_names lib p) t"

definition is_optional :: "serializable_property \<Rightarrow> error + bool" where
  "is_optional p =
     (case sp_type p of
        None \<Rightarrow> Inl (AttributeError ''__name__'')
      | Some t \<Rightarrow> Inr (type_name t = ''Optional''))"

text \<open>\<^verbatim>\<open>t, n = self.type_.__args__\<close> and \<^verbatim>\<open>t, = t.__args__\<close>\<close>

definition unpack2 :: "pytype \<Rightarrow> error + pytype" where
  "unpack2 t =
     (case type_args t of
        Inl e \<Rightarrow> Inl e
      | Inr [a, b] \<Rightarrow> Inr a
      | Inr _ \<Rightarrow> Inl (ValueError ''unpack''))"

definition unpack1 :: "pytype \<Rightarrow> error + pytype" where
  "unpack1 t =
     (case type_args t of
        Inl e \<Rightarrow> Inl e
      | Inr [a] \<Rightarrow> Inr a
      | Inr _ \<Rightarrow> Inl (ValueError ''unpack''))"

definition the_type :: "serializable_property \<Rightarrow> error + pytype" where
  "the_type p =
     (case sp_type p of None \<Rightarrow> Inl (AttributeError ''__name__'') | Some t \<Rightarrow> Inr t)"

definition is_array :: "serializable_property \<Rightarrow> error + bool" where
  "is_array p =
     (case is_optional p of
        Inl e \<Rightarrow> Inl e
      | Inr True \<Rightarrow>
          (case the_type p of Inl e \<Rightarrow> Inl e | Inr ty \<Rightarrow>
           (case unpack2 ty of Inl e \<Rightarrow> Inl e | Inr t \<Rightarrow>
              Inr (type_name t \<in> set ARRAY_TYPES)))
      | Inr False \<Rightarrow>
          (case the_type p of Inl e \<Rightarrow> Inl e | Inr ty \<Rightarrow>
              Inr (type_name ty \<in> set ARRAY_TYPES)))"

definition concrete_type :: "serializable_property \<Rightarrow> error + pytype" where
  "concrete_type p =
     (case is_optional p of
        Inl e \<Rightarrow> Inl e
      | Inr True \<Rightarrow>
          (case the_type p of Inl e \<Rightarrow> Inl e | Inr ty \<Rightarrow>
           (case unpack2 ty of Inl e \<Rightarrow> Inl e | Inr t \<Rightarrow>
              (if type_name t \<in> set ARRAY_TYPES then unpack1 t else Inr t)))
      | Inr False \<Rightarrow>
          (case the_type p of Inl e \<Rightarrow> Inl e | Inr ty \<Rightarrow>
              (if type_name ty \<in> set ARRAY_TYPES then unpack1 ty else Inr ty)))"

text \<open>\<^verbatim>\<open>issubclass(type(self.concrete_type()), enum.EnumMeta)\<close>\<close>

definition is_enum :: "serializable_property \<Rightarrow> error + bool" where
  "is_enum p =
     (case concrete_type p of
        Inl e \<Rightarrow> Inl e
      | Inr t \<Rightarrow> Inr (case t of TEnumClass n \<Rightarrow> True | _ \<Rightarrow> False))"

definition is_primitive_type :: "serializable_property \<Rightarrow> error + bool" where
  "is_primitive_type p =
     (case concrete_type p of
        Inl e \<Rightarrow> Inl e
      | Inr t \<Rightarrow> Inr (t \<in> set PRIMITIVE_TYPES))"

section \<open>XML encoding\<close>

text \<open>
  Which \<^verbatim>\<open>as_xml\<close> the attribute lookup finds for an object of the class \<open>q\<close>: the function
  \<^verbatim>\<open>_as_xml\<close> when registration set it on the class itself; else the first found along
  the classes the class inherits from, which is \<^verbatim>\<open>_as_xml\<close> on a class of the program
  that registration set it on, and the method of \<^verbatim>\<open>XmlSerializableObject\<close> there; else
  none. (The classes of the program define no \<^verbatim>\<open>as_xml\<close> of their own.)
\<close>

datatype as_xml_impl = ImplInjected | ImplLegacy klass

fun inherited_as_xml :: "library \<Rightarrow> klass \<Rightarrow> base list \<Rightarrow> as_xml_impl option" where
  "inherited_as_xml lib k [] = None"
| "inherited_as_xml lib k (b # mro) =
     (case b of
        XmlSerializableObject \<Rightarrow> Some (ImplLegacy k)
      | JsonSerializableObject \<Rightarrow> inherited_as_xml lib k mro
      | ProgramClass q \<Rightarrow>
          if getattr lib q ''as_xml'' = Some Fn_as_xml then Some ImplInjected
          else inherited_as_xml lib k mro)"

definition as_xml_method :: "runtime \<Rightarrow> string \<Rightarrow> as_xml_impl option" where
  "as_xml_method rt q =
     (if getattr (rt_library rt) q ''as_xml'' = Some Fn_as_xml then Some ImplInjected
      else (case rt_classes rt q of
              None \<Rightarrow> None
            | Some k \<Rightarrow> inherited_as_xml (rt_library rt) k (k_bases k)))"

text \<open>\<^verbatim>\<open>callable(getattr(x, "as_xml", None))\<close> for a value and for a mapped type.\<close>

definition has_as_xml :: "runtime \<Rightarrow> pyval \<Rightarrow> bool" where
  "has_as_xml rt v =
     (case v of PObj c self_dict \<Rightarrow> as_xml_method rt (class_key c) \<noteq> None | _ \<Rightarrow> False)"

definition mapped_has_as_xml :: "runtime \<Rightarrow> mapped \<Rightarrow> bool" where
  "mapped_has_as_xml rt m =
     (case m of MappedClass q \<Rightarrow> as_xml_method rt q \<noteq> None | _ \<Rightarrow> False)"

definition property_info :: "runtime \<Rightarrow> cref \<Rightarrow> serializable_property pydict" where
  "property_info rt c =
     (case dict_get (klass_property_mappings (rt_library rt)) (class_key c) of
        None \<Rightarrow> []
      | Some info \<Rightarrow> info)"

text \<open>\<^verbatim>\<open>prop_info.custom_names.get(SerializationType.XML, new_key)\<close>\<close>

definition xml_name :: "runtime \<Rightarrow> serializable_property \<Rightarrow> string \<Rightarrow> string" where
  "xml_name rt prop_info new_key =
     (case custom_name (rt_library rt) prop_info XML of None \<Rightarrow> new_key | Some n \<Rightarrow> n)"

text \<open>The first loop of \<^verbatim>\<open>_as_xml\<close>: properties that are attributes.\<close>

definition priv_as_xml_attribute ::
  "runtime \<Rightarrow> serializable_property pydict \<Rightarrow> string pydict \<Rightarrow> string \<times> pyval \<Rightarrow> string pydict" where
  "priv_as_xml_attribute rt info this_e_attributes kv =
     (case kv of (k, v) \<Rightarrow>
        if skipped_key (drop 1 k) then this_e_attributes
        else (case dict_get info (drop 1 k) of
                None \<Rightarrow> this_e_attributes
              | Some prop_info \<Rightarrow>
                  if sp_is_xml_attribute prop_info
                  then dict_set this_e_attributes
                         (encode_name rt (xml_name rt prop_info (drop 1 k))) (py_str rt v)
                  else this_e_attributes))"

definition priv_as_xml_attributes ::
  "runtime \<Rightarrow> serializable_property pydict \<Rightarrow> (string \<times> pyval) list \<Rightarrow> string pydict" where
  "priv_as_xml_attributes rt info self_dict = foldl (priv_as_xml_attribute rt info) [] self_dict"

text \<open>The first loop of \<^verbatim>\<open>XmlSerializableObject.as_xml\<close>.\<close>

definition key_mapping :: "klass \<Rightarrow> string \<Rightarrow> string" where
  "key_mapping k new_key =
     (case dict_get (k_property_key_mappings k) new_key of None \<Rightarrow> new_key | Some m \<Rightarrow> m)"

definition as_xml_attribute ::
  "runtime \<Rightarrow> klass \<Rightarrow> string pydict \<Rightarrow> string \<times> pyval \<Rightarrow> string pydict" where
  "as_xml_attribute rt k this_e_attributes kv =
     (case kv of (key, v) \<Rightarrow>
        if skipped_key (drop 1 key) then this_e_attributes
        else if drop 1 key \<in> k_properties_as_attributes k
        then dict_set this_e_attributes
               (encode_name rt (key_mapping k (drop 1 key))) (py_str rt v)
        else this_e_attributes)"

definition as_xml_attributes :: "runtime \<Rightarrow> klass \<Rightarrow> (string \<times> pyval) list \<Rightarrow> string pydict" where
  "as_xml_attributes rt k self_dict = foldl (as_xml_attribute rt k) [] self_dict"

definition custom_serialize :: "custom_type \<Rightarrow> pyval \<Rightarrow> error + scalar" where
  "custom_serialize ct v =
     (case ct of
        CustomSerializer ser de \<Rightarrow> ser v
      | CustomCallable f \<Rightarrow> Inl (AttributeError ''serialize''))"

lemma sum_size_values_le:
  "sum_list (map (\<lambda>kv. size (snd kv)) (d :: (string \<times> pyval) list))
     \<le> size_list (size_prod (\<lambda>x. 0) size) d"
  by (induction d) auto

lemma sum_size_le: "sum_list (map size (xs :: pyval list)) \<le> size_list size xs"
  by (induction xs) auto

lemma sum_size_map_PStr: "sum_list (map (size \<circ> (\<lambda>x. PStr (f x))) xs) = 0"
  by (induction xs) auto

lemma iter_items_size:
  "iter_items v = Inr js \<Longrightarrow> sum_list (map size js) \<le> size v"
  using sum_size_le [of "case v of PList xs \<Rightarrow> xs | PSet xs \<Rightarrow> xs | _ \<Rightarrow> []"]
  using sum_size_map_PStr [of "\<lambda>c. [c]"] sum_size_map_PStr [of "\<lambda>k. k"]
  by (auto simp: iter_items_def comp_def split: pyval.splits)

text \<open>
  The second loops, with the calls \<^verbatim>\<open>v.as_xml(as_string=False, element_name=...)\<close> that
  they make on nested values. \<open>call_as_xml\<close> is that method call; the functions
  \<open>priv_\<close> are \<^verbatim>\<open>_as_xml\<close>, the functions \<open>legacy_\<close> are
  \<^verbatim>\<open>XmlSerializableObject.as_xml\<close>. Each \<open>_property\<close> function is one pass of the loop
  body, each \<open>_items\<close> function the loop \<^verbatim>\<open>for j in v\<close>. An exception leaves the loop
  and the call, so the element under construction is then dropped.
\<close>

function
  call_as_xml :: "runtime \<Rightarrow> pyval \<Rightarrow> string option \<Rightarrow> error + element" and
  priv_as_xml_elements ::
    "runtime \<Rightarrow> serializable_property pydict \<Rightarrow> (string \<times> pyval) list \<Rightarrow> element \<Rightarrow> error + element" and
  priv_as_xml_property ::
    "runtime \<Rightarrow> serializable_property pydict \<Rightarrow> string \<Rightarrow> pyval \<Rightarrow> element \<Rightarrow> error + element" and
  priv_as_xml_items ::
    "runtime \<Rightarrow> serializable_property \<Rightarrow> string \<Rightarrow> pyval list \<Rightarrow> element \<Rightarrow> error + element" and
  legacy_as_xml_elements ::
    "runtime \<Rightarrow> klass \<Rightarrow> (string \<times> pyval) list \<Rightarrow> element \<Rightarrow> error + element" and
  legacy_as_xml_property ::
    "runtime \<Rightarrow> klass \<Rightarrow> string \<Rightarrow> pyval \<Rightarrow> element \<Rightarrow> error + element" and
  legacy_as_xml_items ::
    "runtime \<Rightarrow> string \<Rightarrow> pyval list \<Rightarrow> element \<Rightarrow> error + element"
where
  "call_as_xml rt v element_name =
     (case v of
        PObj c self_dict \<Rightarrow>
          (case as_xml_method rt (class_key c) of
             None \<Rightarrow> Inl (AttributeError ''as_xml'')
           | Some ImplInjected \<Rightarrow>
               (case root_tag rt c element_name of
                  Inl e \<Rightarrow> Inl e
                | Inr t \<Rightarrow>
                    priv_as_xml_elements rt (property_info rt c) self_dict
                      (Element t (priv_as_xml_attributes rt (property_info rt c) self_dict) None []))
           | Some (ImplLegacy k) \<Rightarrow>
               (case root_tag rt c element_name of
                  Inl e \<Rightarrow> Inl e
                | Inr t \<Rightarrow>
                    legacy_as_xml_elements rt k self_dict
                      (Element t (as_xml_attributes rt k self_dict) None [])))
      | _ \<Rightarrow> Inl (AttributeError ''as_xml''))"
| "priv_as_xml_elements rt info [] this_e = Inr this_e"
| "priv_as_xml_elements rt info (kv # rest) this_e =
     (case priv_as_xml_property rt info (fst kv) (snd kv) this_e of
        Inl e \<Rightarrow> Inl e
      | Inr this_e' \<Rightarrow> priv_as_xml_elements rt info rest this_e')"
| "priv_as_xml_property rt info k v this_e =
     (if v = PNone then Inr this_e
      else if skipped_key (drop 1 k) then Inr this_e
      else (case dict_get info (drop 1 k) of
        None \<Rightarrow> Inr this_e
      | Some prop_info \<Rightarrow>
          if sp_is_xml_attribute prop_info then Inr this_e
          else if xml_name rt prop_info (drop 1 k) = ''.''
          then Inr (set_text this_e (py_str rt v))
          else (case sp_custom_type prop_info of
            Some ct \<Rightarrow>
              (case custom_serialize ct v of
                 Inl e \<Rightarrow> Inl e
               | Inr s \<Rightarrow>
                   Inr (SubElement_text this_e
                          (encode_name rt (xml_name rt prop_info (drop 1 k)))
                          (py_str rt (scalar_val s))))
          | None \<Rightarrow>
              (case is_array prop_info of
                 Inl e \<Rightarrow> Inl e
               | Inr True \<Rightarrow>
                   (case sp_xml_array_config prop_info of
                      None \<Rightarrow> Inl (TypeError ''cannot unpack non-iterable NoneType object'')
                    | Some cfg \<Rightarrow>
                        (case iter_items v of
                           Inl e \<Rightarrow> Inl e
                         | Inr js \<Rightarrow>
                             if fst cfg = NESTED
                             then (case priv_as_xml_items rt prop_info (snd cfg) js
                                          (Element (encode_name rt (xml_name rt prop_info (drop 1 k)))
                                             [] None []) of
                                     Inl e \<Rightarrow> Inl e
                                   | Inr nested_e \<Rightarrow> Inr (append this_e nested_e))
                             else priv_as_xml_items rt prop_info (snd cfg) js this_e))
               | Inr False \<Rightarrow>
                   (case is_enum prop_info of
                      Inl e \<Rightarrow> Inl e
                    | Inr True \<Rightarrow>
                        (case v of
                           PEnum cn x \<Rightarrow>
                             Inr (SubElement_text this_e
                                    (encode_name rt (xml_name rt prop_info (drop 1 k)))
                                    (py_str rt x))
                         | _ \<Rightarrow> Inl (AttributeError ''value''))
                    | Inr False \<Rightarrow>
                        (case is_primitive_type prop_info of
                           Inl e \<Rightarrow> Inl e
                         | Inr False \<Rightarrow>
                             (case call_as_xml rt v
                                     (Some (encode_name rt (xml_name rt prop_info (drop 1 k)))) of
                                Inl e \<Rightarrow> Inl e
                              | Inr child \<Rightarrow> Inr (append this_e child))
                         | Inr True \<Rightarrow>
                             if sp_type prop_info = Some TFloat \<or> sp_type prop_info = Some TInt
                             then Inr (SubElement_text this_e
                                         (encode_name rt (xml_name rt prop_info (drop 1 k)))
                                         (py_str rt v))
                             else if sp_type prop_info = Some TBool
                             then Inr (SubElement_text this_e
                                         (encode_name rt (xml_name rt prop_info (drop 1 k)))
                                         (lower (py_str rt v)))
                             else Inr (SubElement_text this_e
                                         (encode_name rt (xml_name rt prop_info (drop 1 k)))
                                         (py_str rt v))))))))"
| "priv_as_xml_items rt prop_info nested_key [] nested_e = Inr nested_e"
| "priv_as_xml_items rt prop_info nested_key (j # js) nested_e =
     (case is_primitive_type prop_info of
        Inl e \<Rightarrow> Inl e
      | Inr False \<Rightarrow>
          (case call_as_xml rt j (Some nested_key) of
             Inl e \<Rightarrow> Inl e
           | Inr child \<Rightarrow> priv_as_xml_items rt prop_info nested_key js (append nested_e child))
      | Inr True \<Rightarrow>
          (case concrete_type prop_info of
             Inl e \<Rightarrow> Inl e
           | Inr t \<Rightarrow>
               if t = TFloat \<or> t = TInt
               then priv_as_xml_items rt prop_info nested_key js
                      (SubElement_text nested_e nested_key (py_str rt j))
               else if t = TBool
               then priv_as_xml_items rt prop_info nested_key js
                      (SubElement_text nested_e nested_key (lower (py_str rt j)))
               else priv_as_xml_items rt prop_info nested_key js
                      (SubElement_text nested_e nested_key (py_str rt j))))"
| "legacy_as_xml_elements rt k [] this_e = Inr this_e"
| "legacy_as_xml_elements rt k (kv # rest) this_e =
     (case legacy_as_xml_property rt k (fst kv) (snd kv) this_e of
        Inl e \<Rightarrow> Inl e
      | Inr this_e' \<Rightarrow> legacy_as_xml_elements rt k rest this_e')"
| "legacy_as_xml_property rt k key v this_e =
     (if v = PNone then Inr this_e
      else if skipped_key (drop 1 key) then Inr this_e
      else if drop 1 key \<in> k_properties_as_attributes k then Inr this_e
      else if dict_get (k_property_key_mappings k) (drop 1 key) = Some ''.''
      then Inr (set_text this_e (py_str rt v))
      else (case dict_get (k_property_data_class_mappings k) (key_mapping k (drop 1 key)) of
        Some klass_ss \<Rightarrow>
          if mapped_has_as_xml rt klass_ss
          then (case call_as_xml rt v (Some (encode_name rt (key_mapping k (drop 1 key)))) of
                  Inl e \<Rightarrow> Inl e
                | Inr child \<Rightarrow> Inr (append this_e child))
          else (case klass_ss of
                  MappedSimple ser de mk \<Rightarrow>
                    (case ser v of
                       Inl e \<Rightarrow> Inl e
                     | Inr s \<Rightarrow>
                         Inr (SubElement_text this_e
                                (encode_name rt (key_mapping k (drop 1 key)))
                                (py_str rt (scalar_val s))))
                | _ \<Rightarrow> Inr this_e)
      | None \<Rightarrow>
          (case v of
             PList xs \<Rightarrow>
               (case dict_get (k_array_property_configuration k) (key_mapping k (drop 1 key)) of
                  Some (NESTED, cfg) \<Rightarrow>
                    (case legacy_as_xml_items rt (encode_name rt (key_mapping k (drop 1 key))) xs
                            (Element (encode_name rt (key_mapping k (drop 1 key))) [] None []) of
                       Inl e \<Rightarrow> Inl e
                     | Inr nested_e \<Rightarrow> Inr (append this_e nested_e))
                | Some (FLAT, cfg) \<Rightarrow> legacy_as_xml_items rt (fst cfg) xs this_e
                | None \<Rightarrow> legacy_as_xml_items rt (key_mapping k (drop 1 key)) xs this_e)
           | PSet xs \<Rightarrow>
               (case dict_get (k_array_property_configuration k) (key_mapping k (drop 1 key)) of
                  Some (NESTED, cfg) \<Rightarrow>
                    (case legacy_as_xml_items rt (encode_name rt (key_mapping k (drop 1 key))) xs
                            (Element (encode_name rt (key_mapping k (drop 1 key))) [] None []) of
                       Inl e \<Rightarrow> Inl e
                     | Inr nested_e \<Rightarrow> Inr (append this_e nested_e))
                | Some (FLAT, cfg) \<Rightarrow> legacy_as_xml_items rt (fst cfg) xs this_e
                | None \<Rightarrow> legacy_as_xml_items rt (key_mapping k (drop 1 key)) xs this_e)
           | PEnum cn x \<Rightarrow>
               Inr (SubElement_text this_e (encode_name rt (key_mapping k (drop 1 key)))
                      (py_str rt x))
           | _ \<Rightarrow>
               Inr (SubElement_text this_e (encode_name rt (key_mapping k (drop 1 key)))
                      (py_str rt v)))))"
| "legacy_as_xml_items rt item_key [] nested_e = Inr nested_e"
| "legacy_as_xml_items rt item_key (j # js) nested_e =
     (if has_as_xml rt j
      then (case call_as_xml rt j None of
              Inl e \<Rightarrow> Inl e
            | Inr child \<Rightarrow> legacy_as_xml_items rt item_key js (append nested_e child))
      else legacy_as_xml_items rt item_key js (SubElement_text nested_e item_key (py_str rt j)))"
  by pat_completeness auto


termination
  apply (relation "measures
    [case_sum
       (case_sum (\<lambda>(rt, v, n). size v)
          (case_sum (\<lambda>(rt, info, d, e). sum_list (map (\<lambda>kv. size (snd kv)) d))
                    (\<lambda>(rt, info, k, v, e). size v)))
       (case_sum
          (case_sum (\<lambda>(rt, p, n, js, e). sum_list (map size js))
                    (\<lambda>(rt, k, d, e). sum_list (map (\<lambda>kv. size (snd kv)) d)))
          (case_sum (\<lambda>(rt, k, key, v, e). size v)
                    (\<lambda>(rt, n, js, e). sum_list (map size js)))),
     case_sum
       (case_sum (\<lambda>x. 0) (case_sum (\<lambda>x. 3) (\<lambda>x. 2)))
       (case_sum (case_sum (\<lambda>x. 1) (\<lambda>x. 3)) (case_sum (\<lambda>x. 2) (\<lambda>x. 1))),
     case_sum
       (case_sum (\<lambda>x. 0) (case_sum (\<lambda>(rt, info, d, e). length d) (\<lambda>x. 0)))
       (case_sum (case_sum (\<lambda>(rt, p, n, js, e). length js) (\<lambda>(rt, k, d, e). length d))
                 (case_sum (\<lambda>x. 0) (\<lambda>(rt, n, js, e). length js)))]")
  apply (auto simp: le_imp_less_Suc sum_size_values_le sum_size_le dest: iter_items_size)
  apply force+
  done


declare call_as_xml.simps [simp del]
declare priv_as_xml_property.simps [simp del]
declare legacy_as_xml_property.simps [simp del]

text \<open>The module-level function \<^verbatim>\<open>_as_xml\<close>, with \<^verbatim>\<open>as_string=False\<close>.\<close>

definition priv_as_xml :: "runtime \<Rightarrow> pyval \<Rightarrow> string option \<Rightarrow> error + element" where
  "priv_as_xml rt self element_name =
     (case self of
        PObj c self_dict \<Rightarrow>
          (case root_tag rt c element_name of
             Inl e \<Rightarrow> Inl e
           | Inr t \<Rightarrow>
               priv_as_xml_elements rt (property_info rt c) self_dict
                 (Element t (priv_as_xml_attributes rt (property_info rt c) self_dict) None []))
      | _ \<Rightarrow> Inl (AttributeError ''__dict__''))"

text \<open>The method \<^verbatim>\<open>XmlSerializableObject.as_xml\<close> of a class \<open>k\<close>, with \<^verbatim>\<open>as_string=False\<close>.\<close>

definition XmlSerializableObject_as_xml ::
  "runtime \<Rightarrow> klass \<Rightarrow> pyval \<Rightarrow> string option \<Rightarrow> error + element" where
  "XmlSerializableObject_as_xml rt k self element_name =
     (case self of
        PObj c self_dict \<Rightarrow>
          (case root_tag rt c element_name of
             Inl e \<Rightarrow> Inl e
           | Inr t \<Rightarrow>
               legacy_as_xml_elements rt k self_dict
                 (Element t (as_xml_attributes rt k self_dict) None []))
      | _ \<Rightarrow> Inl (AttributeError ''__dict__''))"

section \<open>JSON encoding\<close>

text \<open>
  \<^verbatim>\<open>DefaultJsonEncoder.default\<close> on an object: the key it writes for a dictionary entry
  (the name is encoded once inside the test on the property information and once
  more after it), and the value it stores.
\<close>

definition json_name :: "runtime \<Rightarrow> serializable_property pydict \<Rightarrow> string \<Rightarrow> string" where
  "json_name rt info new_key =
     (case dict_get info new_key of
        None \<Rightarrow> encode_name rt new_key
      | Some prop_info \<Rightarrow>
          encode_name rt (encode_name rt
            (case custom_name (rt_library rt) prop_info JSON of
               None \<Rightarrow> new_key
             | Some n \<Rightarrow> (if n = [] then new_key else n))))"

definition custom_call :: "custom_type \<Rightarrow> pyval \<Rightarrow> error + scalar" where
  "custom_call ct v =
     (case ct of CustomSerializer ser de \<Rightarrow> ser v | CustomCallable f \<Rightarrow> f v)"

definition default_value :: "serializable_property pydict \<Rightarrow> string \<Rightarrow> pyval \<Rightarrow> error + pyval" where
  "default_value info new_key v =
     (case dict_get info new_key of
        None \<Rightarrow> Inr v
      | Some prop_info \<Rightarrow>
          (case sp_custom_type prop_info of
             None \<Rightarrow> Inr v
           | Some ct \<Rightarrow>
               (case custom_call ct v of Inl e \<Rightarrow> Inl e | Inr s \<Rightarrow> Inr (scalar_val s))))"

fun default_dict ::
  "runtime \<Rightarrow> serializable_property pydict \<Rightarrow> (string \<times> pyval) list \<Rightarrow> pyval pydict
     \<Rightarrow> error + pyval pydict" where
  "default_dict rt info [] d = Inr d"
| "default_dict rt info (kv # rest) d =
     (if snd kv = PNone then default_dict rt info rest d
      else if skipped_key (drop 1 (fst kv)) then default_dict rt info rest d
      else (case default_value info (drop 1 (fst kv)) (snd kv) of
              Inl e \<Rightarrow> Inl e
            | Inr v \<Rightarrow>
                default_dict rt info rest
                  (dict_set d (json_name rt info (drop 1 (fst kv))) v)))"

definition max_size :: "pyval list \<Rightarrow> nat" where
  "max_size xs = foldr max (map size xs) 0"

lemma max_size_simps [simp]:
  "max_size [] = 0" "max_size (x # xs) = max (size x) (max_size xs)"
  by (simp_all add: max_size_def)

lemma max_size_less: "(\<And>x. x \<in> set xs \<Longrightarrow> size x < n) \<Longrightarrow> 0 < n \<Longrightarrow> max_size xs < n"
  by (induction xs) auto

lemma size_in_list: "x \<in> set xs \<Longrightarrow> size x < Suc (size_list size xs)"
  by (rule le_imp_less_Suc, rule size_list_estimation' [where x = x]) auto

lemma size_in_dict:
  "kv \<in> set d \<Longrightarrow> size (snd kv) < Suc (size_list (size_prod (\<lambda>x. 0) size) d)"
  by (rule less_SucI, rule size_list_estimation [where x = kv]) (auto simp: size_prod_simp)

lemma max_size_list_less: "max_size xs < Suc (size_list size xs)"
  by (rule max_size_less) (auto dest: size_in_list)

lemma max_size_dict_less: "max_size (map snd d) < Suc (size_list (size_prod (\<lambda>x. 0) size) d)"
  by (rule max_size_less) (auto dest: size_in_dict)

lemma max_size_list_le: "max_size xs \<le> size_list size xs"
  using max_size_list_less [of xs] by simp

lemma max_size_dict_le: "max_size (map snd d) \<le> size_list (size_prod (\<lambda>x. 0) size) d"
  using max_size_dict_less [of d] by simp

lemma dict_set_values: "(a, b) \<in> set (dict_set d k v) \<Longrightarrow> b = v \<or> (a, b) \<in> set d"
  by (induction d) (auto split: if_splits)

lemma size_scalar_val: "size (scalar_val s) = 0"
  by (cases s) auto

lemma default_value_size:
  "default_value info n v = Inr v' \<Longrightarrow> v' = v \<or> size v' = 0"
  by (auto simp: default_value_def size_scalar_val split: option.splits sum.splits)

lemma default_dict_values:
  "default_dict rt info fs d = Inr d' \<Longrightarrow> x \<in> set (map snd d') \<Longrightarrow>
     x \<in> set (map snd d) \<or> x \<in> set (map snd fs) \<or> size x = 0"
proof (induction fs arbitrary: d)
  case Nil
  then show ?case by simp
next
  case (Cons kv fs)
  show ?case
  proof (cases "snd kv = PNone \<or> skipped_key (drop 1 (fst kv))")
    case True
    with Cons.prems(1) have "default_dict rt info fs d = Inr d'"
      by (auto simp del: One_nat_def split: if_splits)
    from Cons.IH [OF this Cons.prems(2)] show ?thesis by auto
  next
    case False
    with Cons.prems obtain v where
      v: "default_value info (drop 1 (fst kv)) (snd kv) = Inr v"
      and r: "default_dict rt info fs (dict_set d (json_name rt info (drop 1 (fst kv))) v) = Inr d'"
      by (auto simp del: One_nat_def split: sum.splits)
    from Cons.IH [OF r Cons.prems(2)] default_value_size [OF v]
    show ?thesis by (auto dest: dict_set_values)
  qed
qed

lemma default_dict_max_size:
  assumes "default_dict rt info fs [] = Inr d"
  shows "max_size (map snd d) < Suc (size_list (size_prod (\<lambda>x. 0) size) fs)"
proof (rule max_size_less)
  fix x assume "x \<in> set (map snd d)"
  from default_dict_values [OF assms this]
  have "x \<in> set (map snd fs) \<or> size x = 0" by simp
  then show "size x < Suc (size_list (size_prod (\<lambda>x. 0) size) fs)"
    by (auto dest: size_in_dict)
qed simp

text \<open>
  \<^verbatim>\<open>json.dumps(self, cls=DefaultJsonEncoder)\<close>, up to the rendering as text: the encoder
  of the standard library walks dictionaries, lists and scalars itself, and calls
  \<^verbatim>\<open>default\<close> on any other value, walking what it returns. The result is the document
  as a tree of dictionaries, lists and scalars.
\<close>

function
  json_value :: "runtime \<Rightarrow> pyval \<Rightarrow> error + pyval" and
  json_list :: "runtime \<Rightarrow> pyval list \<Rightarrow> error + pyval list" and
  json_dict :: "runtime \<Rightarrow> pyval pydict \<Rightarrow> error + pyval pydict"
where
  "json_value rt v =
     (case v of
        PList xs \<Rightarrow> (case json_list rt xs of Inl e \<Rightarrow> Inl e | Inr ys \<Rightarrow> Inr (PList ys))
      | PDict d \<Rightarrow> (case json_dict rt d of Inl e \<Rightarrow> Inl e | Inr d' \<Rightarrow> Inr (PDict d'))
      | PSet xs \<Rightarrow> (case json_list rt xs of Inl e \<Rightarrow> Inl e | Inr ys \<Rightarrow> Inr (PList ys))
      | PEnum cn x \<Rightarrow> json_value rt x
      | PObj c self_dict \<Rightarrow>
          (case default_dict rt (property_info rt c) self_dict [] of
             Inl e \<Rightarrow> Inl e
           | Inr d \<Rightarrow> (case json_dict rt d of Inl e \<Rightarrow> Inl e | Inr d' \<Rightarrow> Inr (PDict d')))
      | _ \<Rightarrow> Inr v)"
| "json_list rt [] = Inr []"
| "json_list rt (x # xs) =
     (case json_value rt x of
        Inl e \<Rightarrow> Inl e
      | Inr y \<Rightarrow> (case json_list rt xs of Inl e \<Rightarrow> Inl e | Inr ys \<Rightarrow> Inr (y # ys)))"
| "json_dict rt [] = Inr []"
| "json_dict rt (kv # d) =
     (case json_value rt (snd kv) of
        Inl e \<Rightarrow> Inl e
      | Inr y \<Rightarrow> (case json_dict rt d of Inl e \<Rightarrow> Inl e | Inr d' \<Rightarrow> Inr ((fst kv, y) # d')))"
  by pat_completeness auto

termination
  apply (relation "measures
    [case_sum (\<lambda>(rt, v). size v)
       (case_sum (\<lambda>(rt, xs). max_size xs) (\<lambda>(rt, d). max_size (map snd d))),
     case_sum (\<lambda>x. 0) (case_sum (\<lambda>x. 1) (\<lambda>x. 1)),
     case_sum (\<lambda>x. 0) (case_sum (\<lambda>(rt, xs). length xs) (\<lambda>(rt, d). length d))]")
  apply (auto simp: max_size_list_less max_size_dict_less default_dict_max_size
      max_size_list_le max_size_dict_le max_def)
  done


text \<open>The module-level function \<^verbatim>\<open>_as_json\<close>, up to the rendering as text.\<close>

definition priv_as_json :: "runtime \<Rightarrow> pyval \<Rightarrow> error + pyval" where
  "priv_as_json rt self = json_value rt self"

section \<open>JSON decoding\<close>

text \<open>
  The hooks, as calls on the class: \<^verbatim>\<open>get_json_key_removals\<close> exists on a class that
  derives from \<^verbatim>\<open>JsonSerializableObject\<close>, the three others on a class that derives from
  \<^verbatim>\<open>SerializableObject\<close>, the base of both \<^verbatim>\<open>JsonSerializableObject\<close> and
  \<^verbatim>\<open>XmlSerializableObject\<close>.
\<close>

definition get_json_key_removals :: "klass \<Rightarrow> error + string list" where
  "get_json_key_removals k =
     (if JsonSerializableObject \<in> set (k_bases k) then Inr (k_json_key_removals k)
      else Inl (AttributeError ''get_json_key_removals''))"

definition get_property_key_mappings :: "klass \<Rightarrow> error + string pydict" where
  "get_property_key_mappings k =
     (if is_SerializableObject k then Inr (k_property_key_mappings k)
      else Inl (AttributeError ''get_property_key_mappings''))"

definition get_property_data_class_mappings :: "klass \<Rightarrow> error + mapped pydict" where
  "get_property_data_class_mappings k =
     (if is_SerializableObject k then Inr (k_property_data_class_mappings k)
      else Inl (AttributeError ''get_property_data_class_mappings''))"

definition get_array_property_configuration ::
  "klass \<Rightarrow> error + (xml_array_serialization_type \<times> string \<times> mapped) pydict" where
  "get_array_property_configuration k =
     (if is_SerializableObject k then Inr (k_array_property_configuration k)
      else Inl (AttributeError ''get_array_property_configuration''))"

text \<open>
  One pass of the first loop of \<^verbatim>\<open>_from_json\<close> over the entry \<open>kv\<close> of \<^verbatim>\<open>data\<close>, on
  the copy \<open>acc\<close> (\<^verbatim>\<open>_data\<close>). The key deleted is always present: only this pass
  deletes it.
\<close>

definition from_json_key ::
  "runtime \<Rightarrow> klass \<Rightarrow> pyval pydict \<Rightarrow> string \<times> pyval \<Rightarrow> error + pyval pydict" where
  "from_json_key rt cls acc kv =
     (case get_json_key_removals cls of
        Inl e \<Rightarrow> Inl e
      | Inr removals \<Rightarrow>
          if fst kv \<in> set removals then Inr (dict_del acc (fst kv))
          else (case formatter_decode rt (fst kv) of
            Inl e \<Rightarrow> Inl e
          | Inr decoded_k \<Rightarrow>
              (case get_property_key_mappings cls of
                 Inl e \<Rightarrow> Inl e
               | Inr mappings \<Rightarrow>
                   (case key_of_value mappings decoded_k of
                      Some mapped_k \<Rightarrow>
                        Inr (dict_set (dict_del acc (fst kv))
                               (if mapped_k = ''.'' then decoded_k else mapped_k) (snd kv))
                    | None \<Rightarrow>
                        Inr (dict_set (dict_del acc (fst kv)) decoded_k (snd kv))))))"

fun from_json_keys ::
  "runtime \<Rightarrow> klass \<Rightarrow> (string \<times> pyval) list \<Rightarrow> pyval pydict \<Rightarrow> error + pyval pydict" where
  "from_json_keys rt cls [] acc = Inr acc"
| "from_json_keys rt cls (kv # rest) acc =
     (case from_json_key rt cls acc kv of
        Inl e \<Rightarrow> Inl e
      | Inr acc' \<Rightarrow> from_json_keys rt cls rest acc')"

text \<open>
  Which \<^verbatim>\<open>from_json\<close> the attribute lookup finds on a class: the plain function
  \<^verbatim>\<open>_from_json\<close> that registration set on it or, first found along the classes it
  inherits from, on one of them, which a call \<^verbatim>\<open>klass.from_json(data=j)\<close> leaves without
  its first argument; the class method of \<^verbatim>\<open>JsonSerializableObject\<close> when that comes
  first; else none.
\<close>

datatype from_json_impl = FromJsonInjected | FromJsonClassmethod

fun inherited_from_json :: "library \<Rightarrow> base list \<Rightarrow> from_json_impl option" where
  "inherited_from_json lib [] = None"
| "inherited_from_json lib (b # mro) =
     (case b of
        JsonSerializableObject \<Rightarrow> Some FromJsonClassmethod
      | XmlSerializableObject \<Rightarrow> inherited_from_json lib mro
      | ProgramClass q \<Rightarrow>
          if getattr lib q ''from_json'' = Some Fn_from_json then Some FromJsonInjected
          else inherited_from_json lib mro)"

definition from_json_method :: "runtime \<Rightarrow> string \<Rightarrow> klass \<Rightarrow> from_json_impl option" where
  "from_json_method rt q k =
     (if getattr (rt_library rt) q ''from_json'' = Some Fn_from_json then Some FromJsonInjected
      else inherited_from_json (rt_library rt) (k_bases k))"

lemma dict_del_values: "(a, b) \<in> set (dict_del d k) \<Longrightarrow> (a, b) \<in> set d"
  by (simp add: dict_del_def)

lemma from_json_key_values:
  "from_json_key rt cls acc kv = Inr acc' \<Longrightarrow> x \<in> set (map snd acc') \<Longrightarrow>
     x \<in> set (map snd acc) \<or> x = snd kv"
  by (auto simp: from_json_key_def split: sum.splits if_splits option.splits
      dest!: dict_set_values dict_del_values)

lemma from_json_keys_values:
  "from_json_keys rt cls d acc = Inr acc' \<Longrightarrow> x \<in> set (map snd acc') \<Longrightarrow>
     x \<in> set (map snd acc) \<or> x \<in> set (map snd d)"
proof (induction d arbitrary: acc)
  case Nil
  then show ?case by simp
next
  case (Cons kv d)
  from Cons.prems(1) obtain acc1 where
    a: "from_json_key rt cls acc kv = Inr acc1" and b: "from_json_keys rt cls d acc1 = Inr acc'"
    by (auto split: sum.splits)
  from Cons.IH [OF b Cons.prems(2)] from_json_key_values [OF a]
  show ?case by auto
qed

lemma from_json_keys_max_size:
  assumes "from_json_keys rt cls d d = Inr acc"
  shows "max_size (map snd acc) < Suc (size_list (size_prod (\<lambda>x. 0) size) d)"
proof (rule max_size_less)
  fix x assume "x \<in> set (map snd acc)"
  from from_json_keys_values [OF assms this]
  show "size x < Suc (size_list (size_prod (\<lambda>x. 0) size) d)"
    by (auto dest: size_in_dict)
qed simp

text \<open>
  The body shared by \<^verbatim>\<open>_from_json\<close> and \<^verbatim>\<open>JsonSerializableObject.from_json\<close>, which are
  the same statements. \<open>from_json_value\<close> is one pass of the second loop;
  \<open>from_json_item\<close> is the choice between \<^verbatim>\<open>klass.from_json\<close>, \<^verbatim>\<open>klass.deserialize\<close>
  (tried only in the branch of the data class mappings) and \<^verbatim>\<open>klass(j)\<close>.
\<close>

function
  from_json :: "runtime \<Rightarrow> klass \<Rightarrow> pyval \<Rightarrow> error + pyval" and
  from_json_values :: "runtime \<Rightarrow> klass \<Rightarrow> pyval pydict \<Rightarrow> error + pyval pydict" and
  from_json_value :: "runtime \<Rightarrow> klass \<Rightarrow> string \<Rightarrow> pyval \<Rightarrow> error + pyval" and
  from_json_items :: "runtime \<Rightarrow> bool \<Rightarrow> mapped \<Rightarrow> pyval list \<Rightarrow> error + pyval list" and
  from_json_item :: "runtime \<Rightarrow> bool \<Rightarrow> mapped \<Rightarrow> pyval \<Rightarrow> error + pyval"
where
  "from_json rt cls data =
     (case data of
        PDict d \<Rightarrow>
          (case from_json_keys rt cls d d of
             Inl e \<Rightarrow> Inl e
           | Inr acc \<Rightarrow>
               (case from_json_values rt cls acc of
                  Inl e \<Rightarrow> Inl e
                | Inr kwargs \<Rightarrow> k_init cls [] kwargs))
      | _ \<Rightarrow> Inl (AttributeError ''items''))"
| "from_json_values rt cls [] = Inr []"
| "from_json_values rt cls (kv # rest) =
     (case from_json_value rt cls (fst kv) (snd kv) of
        Inl e \<Rightarrow> Inl e
      | Inr v \<Rightarrow>
          (case from_json_values rt cls rest of
             Inl e \<Rightarrow> Inl e
           | Inr rest' \<Rightarrow> Inr ((fst kv, v) # rest')))"
| "from_json_value rt cls k v =
     (case get_property_data_class_mappings cls of
        Inl e \<Rightarrow> Inl e
      | Inr mappings \<Rightarrow>
          (case dict_get mappings k of
             Some klass \<Rightarrow>
               (case v of
                  PList xs \<Rightarrow>
                    (case from_json_items rt True klass xs of
                       Inl e \<Rightarrow> Inl e | Inr items \<Rightarrow> Inr (PList items))
                | PSet xs \<Rightarrow>
                    (case from_json_items rt True klass xs of
                       Inl e \<Rightarrow> Inl e | Inr items \<Rightarrow> Inr (PList items))
                | _ \<Rightarrow> from_json_item rt True klass v)
           | None \<Rightarrow>
               (case get_array_property_configuration cls of
                  Inl e \<Rightarrow> Inl e
                | Inr cfg \<Rightarrow>
                    (case dict_get cfg k of
                       Some c \<Rightarrow>
                         (case v of
                            PList xs \<Rightarrow>
                              (case from_json_items rt False (snd (snd c)) xs of
                                 Inl e \<Rightarrow> Inl e | Inr items \<Rightarrow> Inr (PList items))
                          | PSet xs \<Rightarrow>
                              (case from_json_items rt False (snd (snd c)) xs of
                                 Inl e \<Rightarrow> Inl e | Inr items \<Rightarrow> Inr (PList items))
                          | _ \<Rightarrow> Inr v)
                     | None \<Rightarrow> Inr v))))"
| "from_json_items rt with_deserialize klass [] = Inr []"
| "from_json_items rt with_deserialize klass (j # js) =
     (case from_json_item rt with_deserialize klass j of
        Inl e \<Rightarrow> Inl e
      | Inr x \<Rightarrow>
          (case from_json_items rt with_deserialize klass js of
             Inl e \<Rightarrow> Inl e
           | Inr xs \<Rightarrow> Inr (x # xs)))"
| "from_json_item rt with_deserialize klass j =
     (case klass of
        MappedClass q \<Rightarrow>
          (case rt_classes rt q of
             None \<Rightarrow> Inl (NameError q)
           | Some k \<Rightarrow>
               (case from_json_method rt q k of
                  Some FromJsonInjected \<Rightarrow>
                    Inl (TypeError ''_from_json() missing 1 required positional argument: cls'')
                | Some FromJsonClassmethod \<Rightarrow> from_json rt k j
                | None \<Rightarrow> k_init k [j] []))
      | MappedSimple ser de mk \<Rightarrow> (if with_deserialize then de j else mk j)
      | MappedCallable f \<Rightarrow> f j)"
  by pat_completeness auto

termination
  apply (relation "measures
    [case_sum
       (case_sum (\<lambda>(rt, cls, data). size data) (\<lambda>(rt, cls, d). max_size (map snd d)))
       (case_sum (\<lambda>(rt, cls, k, v). size v)
          (case_sum (\<lambda>(rt, w, klass, xs). max_size xs) (\<lambda>(rt, w, klass, j). size j))),
     case_sum
       (case_sum (\<lambda>x. 0) (\<lambda>x. 3))
       (case_sum (\<lambda>x. 2) (case_sum (\<lambda>x. 2) (\<lambda>x. 1))),
     case_sum
       (case_sum (\<lambda>x. 0) (\<lambda>(rt, cls, d). length d))
       (case_sum (\<lambda>x. 0) (case_sum (\<lambda>(rt, w, klass, xs). length xs) (\<lambda>x. 0)))]")
  apply (auto simp: max_size_list_less max_size_dict_less from_json_keys_max_size
      max_size_list_le max_size_dict_le max_def)
  done

declare json_value.simps [simp del]
declare from_json.simps [simp del]
declare from_json_value.simps [simp del]
declare from_json_item.simps [simp del]


text \<open>The module-level function \<^verbatim>\<open>_from_json\<close>, called with the class as its first argument.\<close>

definition priv_from_json :: "runtime \<Rightarrow> klass \<Rightarrow> pyval \<Rightarrow> error + pyval" where
  "priv_from_json rt cls data = from_json rt cls data"

text \<open>The class method \<^verbatim>\<open>JsonSerializableObject.from_json\<close>.\<close>

definition JsonSerializableObject_from_json :: "runtime \<Rightarrow> klass \<Rightarrow> pyval \<Rightarrow> error + pyval" where
  "JsonSerializableObject_from_json rt cls data = from_json rt cls data"

text \<open>The keyword arguments that the decoder hands to the constructor: \<^verbatim>\<open>_data\<close> after both loops.\<close>

definition from_json_kwargs :: "runtime \<Rightarrow> klass \<Rightarrow> pyval pydict \<Rightarrow> error + pyval pydict" where
  "from_json_kwargs rt cls d =
     (case from_json_keys rt cls d d of
        Inl e \<Rightarrow> Inl e
      | Inr acc \<Rightarrow> from_json_values rt cls acc)"

text \<open>The name under which the first loop stores the value of a key, if it keeps the key.\<close>

definition resolved_key :: "formatter \<Rightarrow> klass \<Rightarrow> string \<Rightarrow> string option" where
  "resolved_key f cls k =
     (if k \<in> set (k_json_key_removals cls) then None
      else (case key_of_value (k_property_key_mappings cls) (fmt_decode f k) of
              Some mapped_k \<Rightarrow> Some (if mapped_k = ''.'' then fmt_decode f k else mapped_k)
            | None \<Rightarrow> Some (fmt_decode f k)))"

section \<open>XML decoding\<close>

text \<open>\<^verbatim>\<open>s.replace(old, '')\<close>: every occurrence of \<open>old\<close> goes, from the left.\<close>

function remove_all :: "string \<Rightarrow> string \<Rightarrow> string" where
  "remove_all old s =
     (if s = [] \<or> old = [] then s
      else if take (length old) s = old then remove_all old (drop (length old) s)
      else hd s # remove_all old (tl s))"
  by pat_completeness auto

termination
  by (relation "measure (\<lambda>(old, s). length s)") auto

declare remove_all.simps [simp del]

text \<open>\<^verbatim>\<open>str(child_e.tag).replace('{' + default_namespace + '}', '')\<close>\<close>

definition strip_namespace :: "string \<Rightarrow> string \<Rightarrow> string" where
  "strip_namespace default_namespace tag_name =
     remove_all (''{'' @ default_namespace @ ''}'') tag_name"

text \<open>
  The default namespace when the caller gives none: \<^verbatim>\<open>_namespaces\<close> is the dictionary of the
  \<^verbatim>\<open>start-ns\<close> events (prefix, URI), in which a later event replaces an earlier one with
  the same prefix, and the namespace is what it holds for the prefix \<^verbatim>\<open>ns0\<close>, else the
  empty text.
\<close>

definition inferred_namespace :: "runtime \<Rightarrow> element \<Rightarrow> string" where
  "inferred_namespace rt data =
     (case dict_get (rev (rt_start_ns rt data)) ''ns0'' of
        Some uri \<Rightarrow> uri
      | None \<Rightarrow> [])"

definition resolved_namespace :: "runtime \<Rightarrow> element \<Rightarrow> string option \<Rightarrow> string" where
  "resolved_namespace rt data default_namespace =
     (case default_namespace of
        None \<Rightarrow> inferred_namespace rt data
      | Some ns \<Rightarrow> ns)"

text \<open>\<^verbatim>\<open>str.isdigit\<close> and \<^verbatim>\<open>int\<close> on a text of decimal digits; \<^verbatim>\<open>str.strip\<close>.\<close>

definition is_digit :: "char \<Rightarrow> bool" where
  "is_digit c = (48 \<le> (of_char c :: nat) \<and> (of_char c :: nat) \<le> 57)"

definition isdigit :: "string \<Rightarrow> bool" where
  "isdigit s = (s \<noteq> [] \<and> list_all is_digit s)"

definition int_of_digits :: "string \<Rightarrow> int" where
  "int_of_digits s = foldl (\<lambda>n c. 10 * n + int ((of_char c :: nat) - 48)) 0 s"

definition is_space :: "char \<Rightarrow> bool" where
  "is_space c = ((of_char c :: nat) = 32
     \<or> (9 \<le> (of_char c :: nat) \<and> (of_char c :: nat) \<le> 13)
     \<or> (28 \<le> (of_char c :: nat) \<and> (of_char c :: nat) \<le> 31))"

definition strip :: "string \<Rightarrow> string" where
  "strip s = rev (dropWhile is_space (rev (dropWhile is_space s)))"

text \<open>\<^verbatim>\<open>int(str(x)) if str(x).isdigit() else x\<close>, for the text of an element or an attribute.\<close>

definition scalar_of_text :: "string option \<Rightarrow> pyval" where
  "scalar_of_text x =
     (case x of
        None \<Rightarrow> PNone
      | Some s \<Rightarrow> if isdigit s then PInt (int_of_digits s) else PStr s)"

text \<open>\<^verbatim>\<open>str(child_e.text)\<close> and \<^verbatim>\<open>child_e.text\<close> as values.\<close>

definition str_of_text :: "string option \<Rightarrow> string" where
  "str_of_text x = (case x of None \<Rightarrow> ''None'' | Some s \<Rightarrow> s)"

definition text_value :: "string option \<Rightarrow> pyval" where
  "text_value x = (case x of None \<Rightarrow> PNone | Some s \<Rightarrow> PStr s)"

text \<open>\<^verbatim>\<open>klass(x)\<close> for a mapped type, and whether it has a callable \<^verbatim>\<open>from_xml\<close>: registration
  sets none, so a class has it when it inherits it from \<^verbatim>\<open>XmlSerializableObject\<close>.\<close>

definition klass_call :: "runtime \<Rightarrow> mapped \<Rightarrow> pyval \<Rightarrow> error + pyval" where
  "klass_call rt klass x =
     (case klass of
        MappedClass q \<Rightarrow>
          (case rt_classes rt q of None \<Rightarrow> Inl (NameError q) | Some k \<Rightarrow> k_init k [x] [])
      | MappedSimple ser de mk \<Rightarrow> mk x
      | MappedCallable f \<Rightarrow> f x)"

definition has_from_xml :: "runtime \<Rightarrow> mapped \<Rightarrow> bool" where
  "has_from_xml rt klass =
     (case klass of
        MappedClass q \<Rightarrow>
          (case rt_classes rt q of
             None \<Rightarrow> False
           | Some k \<Rightarrow> XmlSerializableObject \<in> set (k_bases k))
      | _ \<Rightarrow> False)"

text \<open>\<^verbatim>\<open>klass.deserialize(x)\<close> when the type has it, else \<^verbatim>\<open>klass(x)\<close>.\<close>

definition deserialize_or_call :: "runtime \<Rightarrow> mapped \<Rightarrow> pyval \<Rightarrow> error + pyval" where
  "deserialize_or_call rt klass x =
     (case klass of MappedSimple ser de mk \<Rightarrow> de x | _ \<Rightarrow> klass_call rt klass x)"

text \<open>The name of a property from a decoded name: the key of the name in the key mappings.\<close>

definition mapped_name :: "klass \<Rightarrow> string \<Rightarrow> string" where
  "mapped_name cls decoded_name =
     (case key_of_value (k_property_key_mappings cls) decoded_name of
        Some mapped_k \<Rightarrow> mapped_k
      | None \<Rightarrow> decoded_name)"

text \<open>The loop over the attributes of the element, one pass and all of them.\<close>

definition from_xml_attribute ::
  "runtime \<Rightarrow> klass \<Rightarrow> pyval pydict \<Rightarrow> string \<times> string \<Rightarrow> error + pyval pydict" where
  "from_xml_attribute rt cls acc av =
     (case formatter_decode rt (fst av) of
        Inl e \<Rightarrow> Inl e
      | Inr decoded \<Rightarrow>
          if mapped_name cls decoded \<in> k_properties_as_attributes cls
          then (case dict_get (k_property_data_class_mappings cls) (mapped_name cls decoded) of
                  Some klass \<Rightarrow>
                    (case deserialize_or_call rt klass (PStr (snd av)) of
                       Inl e \<Rightarrow> Inl e
                     | Inr x \<Rightarrow> Inr (dict_set acc (mapped_name cls decoded) x))
                | None \<Rightarrow>
                    Inr (dict_set acc (mapped_name cls decoded) (scalar_of_text (Some (snd av)))))
          else Inr acc)"

fun from_xml_attributes ::
  "runtime \<Rightarrow> klass \<Rightarrow> (string \<times> string) list \<Rightarrow> pyval pydict \<Rightarrow> error + pyval pydict" where
  "from_xml_attributes rt cls [] acc = Inr acc"
| "from_xml_attributes rt cls (av # rest) acc =
     (case from_xml_attribute rt cls acc av of
        Inl e \<Rightarrow> Inl e
      | Inr acc' \<Rightarrow> from_xml_attributes rt cls rest acc')"

text \<open>The text of the element, for a property mapped to \<^verbatim>\<open>.\<close>\<close>

definition from_xml_text :: "klass \<Rightarrow> element \<Rightarrow> pyval pydict \<Rightarrow> pyval pydict" where
  "from_xml_text cls data acc =
     (case e_text data of
        None \<Rightarrow> acc
      | Some s \<Rightarrow>
          if s = [] then acc
          else (case key_of_value (k_property_key_mappings cls) ''.'' of
                  None \<Rightarrow> acc
                | Some decoded_name \<Rightarrow> dict_set acc decoded_name (PStr (strip s))))"

text \<open>\<^verbatim>\<open>_data[prop_name].append\<close>, looked up before the item is decoded, and the call.\<close>

definition can_append :: "pyval pydict \<Rightarrow> string \<Rightarrow> bool" where
  "can_append acc prop_name =
     (case dict_get acc prop_name of None \<Rightarrow> True | Some (PList xs) \<Rightarrow> True | Some _ \<Rightarrow> False)"

definition list_append :: "pyval pydict \<Rightarrow> string \<Rightarrow> pyval \<Rightarrow> pyval pydict" where
  "list_append acc prop_name x =
     (case dict_get acc prop_name of
        Some (PList xs) \<Rightarrow> dict_set acc prop_name (PList (xs @ [x]))
      | _ \<Rightarrow> dict_set acc prop_name (PList [x]))"

text \<open>\<^verbatim>\<open>f'Element "{child_e_tag_name}" does not map to a Property of Class {cls.__name__}'\<close>\<close>

definition unmapped_message :: "string \<Rightarrow> string \<Rightarrow> string" where
  "unmapped_message child_e_tag_name class_name =
     ''Element '' @ [CHR 0x22] @ child_e_tag_name @ [CHR 0x22]
       @ '' does not map to a Property of Class '' @ class_name"

lemma size_children: "size_list size (e_children data) < size data"
  by (cases data) simp

text \<open>
  \<^verbatim>\<open>XmlSerializableObject.from_xml\<close> on an element: \<open>from_xml_children\<close> is the loop over the
  children, \<open>from_xml_child\<close> one pass of it, \<open>from_xml_nested\<close> the loop over the children
  of a NESTED wrapper, and \<open>mapped_from_xml\<close> the call \<^verbatim>\<open>klass.from_xml\<close> on a mapped type.
  An exception leaves the loops and the call: no object is then constructed.
\<close>

function
  from_xml :: "runtime \<Rightarrow> klass \<Rightarrow> element \<Rightarrow> string option \<Rightarrow> error + pyval" and
  from_xml_children ::
    "runtime \<Rightarrow> klass \<Rightarrow> string \<Rightarrow> element list \<Rightarrow> pyval pydict \<Rightarrow> error + pyval pydict" and
  from_xml_child ::
    "runtime \<Rightarrow> klass \<Rightarrow> string \<Rightarrow> element \<Rightarrow> pyval pydict \<Rightarrow> error + pyval pydict" and
  from_xml_nested ::
    "runtime \<Rightarrow> mapped \<Rightarrow> string \<Rightarrow> string \<Rightarrow> string \<Rightarrow> element list \<Rightarrow> error + pyval list" and
  mapped_from_xml :: "runtime \<Rightarrow> mapped \<Rightarrow> element \<Rightarrow> string option \<Rightarrow> error + pyval"
where
  "from_xml rt cls data default_namespace =
     (case from_xml_attributes rt cls (e_attrib data) [] of
        Inl e \<Rightarrow> Inl e
      | Inr acc \<Rightarrow>
          (case from_xml_children rt cls (resolved_namespace rt data default_namespace)
                  (e_children data) (from_xml_text cls data acc) of
             Inl e \<Rightarrow> Inl e
           | Inr kwargs \<Rightarrow> k_init cls [] kwargs))"
| "from_xml_children rt cls ns [] acc = Inr acc"
| "from_xml_children rt cls ns (child_e # rest) acc =
     (case from_xml_child rt cls ns child_e acc of
        Inl e \<Rightarrow> Inl e
      | Inr acc' \<Rightarrow> from_xml_children rt cls ns rest acc')"
| "from_xml_child rt cls ns child_e acc =
     (case formatter_decode rt (strip_namespace ns (e_tag child_e)) of
        Inl e \<Rightarrow> Inl e
      | Inr decoded \<Rightarrow>
          (case dict_get (k_array_property_configuration cls) (mapped_name cls decoded) of
             Some cfg \<Rightarrow>
               if fst cfg \<noteq> NESTED then Inl (ValueError ''Only NESTED expected here!'')
               else (case from_xml_nested rt (snd (snd cfg)) ns (fst (snd cfg))
                            (strip_namespace ns (e_tag child_e)) (e_children child_e) of
                       Inl e \<Rightarrow> Inl e
                     | Inr items \<Rightarrow> Inr (dict_set acc (mapped_name cls decoded) (PList items)))
           | None \<Rightarrow>
               (case filter (\<lambda>kv. fst (snd (snd kv)) = strip_namespace ns (e_tag child_e))
                       (k_array_property_configuration cls) of
                  array_config # others \<Rightarrow>
                    if fst (snd array_config) \<noteq> FLAT
                    then Inl (ValueError ''Only FLAT expected here!'')
                    else if \<not> can_append acc (fst array_config)
                    then Inl (AttributeError ''append'')
                    else if has_from_xml rt (snd (snd (snd array_config)))
                    then (case mapped_from_xml rt (snd (snd (snd array_config))) child_e None of
                            Inl e \<Rightarrow> Inl e
                          | Inr x \<Rightarrow> Inr (list_append acc (fst array_config) x))
                    else (case klass_call rt (snd (snd (snd array_config)))
                                 (text_value (e_text child_e)) of
                            Inl e \<Rightarrow> Inl e
                          | Inr x \<Rightarrow> Inr (list_append acc (fst array_config) x))
                | [] \<Rightarrow>
                    (case dict_get (k_property_data_class_mappings cls) (mapped_name cls decoded) of
                       Some klass \<Rightarrow>
                         if has_from_xml rt klass
                         then (case mapped_from_xml rt klass child_e None of
                                 Inl e \<Rightarrow> Inl e
                               | Inr x \<Rightarrow> Inr (dict_set acc (mapped_name cls decoded) x))
                         else (case deserialize_or_call rt klass
                                      (PStr (str_of_text (e_text child_e))) of
                                 Inl e \<Rightarrow> Inl e
                               | Inr x \<Rightarrow> Inr (dict_set acc (mapped_name cls decoded) x))
                     | None \<Rightarrow>
                         if mapped_name cls decoded \<in> set (k_dict cls)
                         then Inr (dict_set acc (mapped_name cls decoded)
                                     (scalar_of_text (e_text child_e)))
                         else Inl (ValueError
                                (unmapped_message (strip_namespace ns (e_tag child_e))
                                   (k_name cls)))))))"
| "from_xml_nested rt klass ns nested_tag child_e_tag_name [] = Inr []"
| "from_xml_nested rt klass ns nested_tag child_e_tag_name (sub_child_e # rest) =
     (if strip_namespace ns (e_tag sub_child_e) \<noteq> nested_tag
      then Inl (ValueError (''Only '' @ nested_tag @ '' elements expected under ''
                              @ child_e_tag_name))
      else (case mapped_from_xml rt klass sub_child_e (Some ns) of
              Inl e \<Rightarrow> Inl e
            | Inr x \<Rightarrow>
                (case from_xml_nested rt klass ns nested_tag child_e_tag_name rest of
                   Inl e \<Rightarrow> Inl e
                 | Inr xs \<Rightarrow> Inr (x # xs))))"
| "mapped_from_xml rt klass data default_namespace =
     (case klass of
        MappedClass q \<Rightarrow>
          (case rt_classes rt q of
             None \<Rightarrow> Inl (NameError q)
           | Some k \<Rightarrow>
               if XmlSerializableObject \<in> set (k_bases k)
               then from_xml rt k data default_namespace
               else Inl (AttributeError ''from_xml''))
      | _ \<Rightarrow> Inl (AttributeError ''from_xml''))"
  by pat_completeness auto

termination
  apply (relation "measures
    [case_sum
       (case_sum (\<lambda>(rt, cls, data, ns). size data)
                 (\<lambda>(rt, cls, ns, cs, acc). size_list size cs))
       (case_sum (\<lambda>(rt, cls, ns, c, acc). size c)
          (case_sum (\<lambda>(rt, klass, ns, nt, ct, cs). size_list size cs)
                    (\<lambda>(rt, klass, data, ns). size data))),
     case_sum
       (case_sum (\<lambda>x. 0) (\<lambda>x. 0))
       (case_sum (\<lambda>x. 2) (case_sum (\<lambda>x. 0) (\<lambda>x. 1)))]")
  apply (auto simp: size_children)
  done

declare from_xml.simps [simp del]
declare from_xml_child.simps [simp del]
declare mapped_from_xml.simps [simp del]

text \<open>The class method, which a class has when it derives from \<^verbatim>\<open>XmlSerializableObject\<close>.\<close>

definition XmlSerializableObject_from_xml ::
  "runtime \<Rightarrow> klass \<Rightarrow> element \<Rightarrow> string option \<Rightarrow> error + pyval" where
  "XmlSerializableObject_from_xml rt cls data default_namespace =
     (if XmlSerializableObject \<in> set (k_bases cls) then from_xml rt cls data default_namespace
      else Inl (AttributeError ''from_xml''))"

section \<open>Example classes\<close>

text \<open>
  A constructor that stores each keyword argument \<open>name\<close> under \<open>_name\<close>, as the classes
  this library serves do, and takes no positional argument.
\<close>

definition store_kwargs :: "cref \<Rightarrow> pyval list \<Rightarrow> pyval pydict \<Rightarrow> error + pyval" where
  "store_kwargs c args kwargs =
     (if args \<noteq> [] then Inl (TypeError ''takes 1 positional argument'')
      else Inr (PObj c (map (\<lambda>kv. (CHR ''_'' # fst kv, snd kv)) kwargs)))"

definition plain_class :: "string \<Rightarrow> string \<Rightarrow> (string \<times> pytype option) list \<Rightarrow> klass" where
  "plain_class m n props =
     \<lparr> k_module = m, k_name = n, k_qualname = n, k_properties = props,
       k_bases = [], k_dict = map fst props,
       k_json_key_removals = [], k_property_key_mappings = [],
       k_property_data_class_mappings = [], k_array_property_configuration = [],
       k_properties_as_attributes = {},
       k_init = store_kwargs (CRef m n n) \<rparr>"

definition Box :: klass where
  "Box = plain_class ''shop'' ''Box'' [(''id'', Some TInt), (''label'', Some TStr)]"

text \<open>
  \<^verbatim>\<open>Box\<close> registered for JSON, its property \<^verbatim>\<open>id\<close> then flagged as an XML attribute; and
  after that \<^verbatim>\<open>Box\<close> registered a second time, for XML.
\<close>

definition registered_once :: library where
  "registered_once =
     register_xml_property_attribute (register_klass empty_library Box None [JSON]) ''shop.Box.id''"

definition registered_twice :: library where
  "registered_twice = register_klass registered_once Box None [XML]"

text \<open>The attribute flag of each property recorded for a class.\<close>

definition attribute_flags :: "library \<Rightarrow> string \<Rightarrow> (string \<times> bool) list" where
  "attribute_flags lib q =
     (case dict_get (klass_property_mappings lib) q of
        None \<Rightarrow> []
      | Some ps \<Rightarrow> map (\<lambda>np. (fst np, sp_is_xml_attribute (snd np))) ps)"


text \<open>An identity name formatter, a runtime around a library, and a class with an array property.\<close>

definition identity_formatter :: formatter where
  "identity_formatter = \<lparr>fmt_encode = (\<lambda>s. s), fmt_decode = (\<lambda>s. s)\<rparr>"

definition example_runtime :: "library \<Rightarrow> runtime" where
  "example_runtime lib =
     \<lparr> rt_formatter = Some identity_formatter, rt_library = lib,
       rt_classes = (\<lambda>q. None), rt_str = (\<lambda>v. ''<object>''),
       rt_start_ns = (\<lambda>e. []) \<rparr>"

definition Shelf :: klass where
  "Shelf = plain_class ''shop'' ''Shelf'' [(''items'', Some (TList TInt))]"

definition shelf :: pyval where
  "shelf = PObj (CRef ''shop'' ''Shelf'' ''Shelf'') [(''_items'', PList [PInt 1, PInt 2, PInt 3])]"

definition shelf_library :: "xml_array_serialization_type \<Rightarrow> library" where
  "shelf_library placement =
     register_klass
       (register_xml_property_array_config empty_library ''shop.Shelf.items'' placement ''item'')
       Shelf None [XML]"

definition items_property :: "xml_array_serialization_type \<Rightarrow> serializable_property" where
  "items_property placement =
     \<lparr> sp_name = ''items'', sp_custom_names = Own [], sp_type = Some (TList TInt),
       sp_custom_type = None, sp_is_xml_attribute = False,
       sp_xml_array_config = Some (placement, ''item'') \<rparr>"

definition attribute_key :: "runtime \<Rightarrow> serializable_property pydict \<Rightarrow> string \<Rightarrow> string option" where
  "attribute_key rt info k =
     (if skipped_key (drop 1 k) then None
      else (case dict_get info (drop 1 k) of
              None \<Rightarrow> None
            | Some p \<Rightarrow>
                if sp_is_xml_attribute p
                then Some (encode_name rt (xml_name rt p (drop 1 k)))
                else None))"

text \<open>
  The attribute name under which the first loop of \<^verbatim>\<open>_as_xml\<close> writes the entry \<open>k\<close> of
  the object's dictionary, if it writes it; and the same for the first loop of
  \<^verbatim>\<open>XmlSerializableObject.as_xml\<close>.
\<close>

definition legacy_attribute_key :: "runtime \<Rightarrow> klass \<Rightarrow> string \<Rightarrow> string option" where
  "legacy_attribute_key rt cls k =
     (if skipped_key (drop 1 k) then None
      else if drop 1 k \<in> k_properties_as_attributes cls
      then Some (encode_name rt (key_mapping cls (drop 1 k)))
      else None)"

definition Tag :: klass where
  "Tag = plain_class ''shop'' ''Tag'' [(''label'', Some TStr), (''ref'', Some TStr)]"

definition tag_library :: library where
  "tag_library =
     register_klass (register_xml_property_attribute empty_library ''shop.Tag.ref'') Tag None [XML]"

definition tag :: pyval where
  "tag = PObj (CRef ''shop'' ''Tag'' ''Tag'') [(''_ref'', PNone), (''_label'', PStr ''x'')]"

definition tag_property :: "string \<Rightarrow> bool \<Rightarrow> serializable_property" where
  "tag_property name attr =
     \<lparr> sp_name = name, sp_custom_names = Own [], sp_type = Some TStr,
       sp_custom_type = None, sp_is_xml_attribute = attr, sp_xml_array_config = None \<rparr>"

definition LegacyTag :: klass where
  "LegacyTag =
     (plain_class ''shop'' ''Tag'' [(''label'', Some TStr), (''ref'', Some TStr)])
       \<lparr>k_bases := [XmlSerializableObject], k_properties_as_attributes := {''ref''}\<rparr>"

definition unconfigured_shelf_library :: library where
  "unconfigured_shelf_library = register_klass empty_library Shelf None [XML]"

definition LegacyShelf :: klass where
  "LegacyShelf =
     (plain_class ''shop'' ''LegacyShelf'' [(''items'', Some (TList TInt))])
       \<lparr>k_bases := [XmlSerializableObject]\<rparr>"

definition legacy_shelf :: pyval where
  "legacy_shelf =
     PObj (CRef ''shop'' ''LegacyShelf'' ''LegacyShelf'')
       [(''_items'', PList [PInt 1, PInt 2, PInt 3])]"

text \<open>
  A class that derives from \<^verbatim>\<open>XmlSerializableObject\<close> and configures its array property
  through \<^verbatim>\<open>get_array_property_configuration\<close>, with the child tag \<open>item\<close>.
\<close>

definition ConfiguredShelf :: "xml_array_serialization_type \<Rightarrow> klass" where
  "ConfiguredShelf placement =
     LegacyShelf
       \<lparr>k_array_property_configuration :=
          [(''items'', (placement, ''item'', MappedCallable (\<lambda>j. Inr j)))]\<rparr>"

definition Switch :: klass where
  "Switch =
     plain_class ''shop'' ''Switch''
       [(''history'', Some (TOptional (TList TBool))), (''maybe'', Some (TOptional TBool)),
        (''on'', Some TBool)]"

definition switch_library :: library where
  "switch_library =
     register_klass
       (register_xml_property_array_config empty_library ''shop.Switch.history'' FLAT ''was'')
       Switch None [XML]"

definition switch :: pyval where
  "switch =
     PObj (CRef ''shop'' ''Switch'' ''Switch'')
       [(''_on'', PBool True), (''_maybe'', PBool True),
        (''_history'', PList [PBool True, PBool False])]"

definition LegacySwitch :: klass where
  "LegacySwitch =
     (plain_class ''shop'' ''LegacySwitch'' [(''on'', Some TBool)])
       \<lparr>k_bases := [XmlSerializableObject]\<rparr>"

definition legacy_switch :: pyval where
  "legacy_switch = PObj (CRef ''shop'' ''LegacySwitch'' ''LegacySwitch'') [(''_on'', PBool True)]"

definition plain_property ::
  "string \<Rightarrow> pytype \<Rightarrow> (xml_array_serialization_type \<times> string) option \<Rightarrow> serializable_property" where
  "plain_property name t cfg =
     \<lparr> sp_name = name, sp_custom_names = Own [], sp_type = Some t,
       sp_custom_type = None, sp_is_xml_attribute = False, sp_xml_array_config = cfg \<rparr>"

text \<open>A constructor that takes the keyword arguments \<open>names\<close> and no other.\<close>

definition strict_kwargs :: "cref \<Rightarrow> string list \<Rightarrow> pyval list \<Rightarrow> pyval pydict \<Rightarrow> error + pyval" where
  "strict_kwargs c names args kwargs =
     (if args \<noteq> [] then Inl (TypeError ''takes 1 positional argument'')
      else if \<exists>k\<in>set (dict_keys kwargs). k \<notin> set names
      then Inl (TypeError ''got an unexpected keyword argument'')
      else Inr (PObj c (map (\<lambda>kv. (CHR ''_'' # fst kv, snd kv)) kwargs)))"

definition Person :: klass where
  "Person =
     (plain_class ''shop'' ''Person'' [(''name'', Some TStr)])
       \<lparr>k_bases := [JsonSerializableObject],
         k_init := strict_kwargs (CRef ''shop'' ''Person'' ''Person'') [''name'']\<rparr>"






definition JsonBox :: klass where
  "JsonBox =
     (plain_class ''shop'' ''Box'' [(''id'', Some TInt)])
       \<lparr>k_bases := [JsonSerializableObject]\<rparr>"

definition Crate :: klass where
  "Crate =
     (plain_class ''shop'' ''Crate'' [(''box'', Some (TClass ''Box''))])
       \<lparr>k_bases := [JsonSerializableObject],
         k_property_data_class_mappings := [(''box'', MappedClass ''shop.Box'')]\<rparr>"

definition crate :: pyval where
  "crate =
     PObj (CRef ''shop'' ''Crate'' ''Crate'')
       [(''_box'', PObj (CRef ''shop'' ''Box'' ''Box'') [(''_id'', PInt 1)])]"

definition crate_runtime :: runtime where
  "crate_runtime =
     (example_runtime
        (register_klass (register_klass empty_library JsonBox None [JSON]) Crate None [JSON]))
       \<lparr>rt_classes := (\<lambda>q. if q = ''shop.Box'' then Some JsonBox
                            else if q = ''shop.Crate'' then Some Crate else None)\<rparr>"

text \<open>
  Encoding an object and decoding the document into the class \<open>cls\<close>:
  \<^verbatim>\<open>_from_json(cls, json.loads(_as_json(o)))\<close>.
\<close>

definition json_round_trip :: "runtime \<Rightarrow> klass \<Rightarrow> pyval \<Rightarrow> error + pyval" where
  "json_round_trip rt cls obj =
     (case priv_as_json rt obj of
        Inl e \<Rightarrow> Inl e
      | Inr document \<Rightarrow> priv_from_json rt cls document)"




text \<open>
  A formatter whose \<^verbatim>\<open>decode\<close> drops the first character of a name, and a runtime with it.
\<close>

definition tail_formatter :: formatter where
  "tail_formatter = \<lparr>fmt_encode = (\<lambda>s. CHR ''x'' # s), fmt_decode = (\<lambda>s. drop 1 s)\<rparr>"

definition tail_runtime :: runtime where
  "tail_runtime = (example_runtime empty_library) \<lparr>rt_formatter := Some tail_formatter\<rparr>"

text \<open>
  What the last branches of the loop over the children test for a tag, once the
  namespace is removed: \<open>unconfigured\<close> when no array configuration and no data class
  mapping takes the child, \<open>unmapped\<close> when moreover the name is no attribute of the class.
\<close>

definition unconfigured :: "formatter \<Rightarrow> klass \<Rightarrow> string \<Rightarrow> bool" where
  "unconfigured f cls child_e_tag_name =
     (dict_get (k_array_property_configuration cls)
          (mapped_name cls (fmt_decode f child_e_tag_name)) = None
      \<and> filter (\<lambda>kv. fst (snd (snd kv)) = child_e_tag_name)
            (k_array_property_configuration cls) = []
      \<and> dict_get (k_property_data_class_mappings cls)
          (mapped_name cls (fmt_decode f child_e_tag_name)) = None)"

definition unmapped :: "formatter \<Rightarrow> klass \<Rightarrow> string \<Rightarrow> bool" where
  "unmapped f cls child_e_tag_name =
     (unconfigured f cls child_e_tag_name
      \<and> mapped_name cls (fmt_decode f child_e_tag_name) \<notin> set (k_dict cls))"

text \<open>
  A class that derives from \<^verbatim>\<open>XmlSerializableObject\<close>, with one property; elements for it,
  in a namespace or in none; a class with a FLAT array property and a document for it
  that has a child \<open>items\<close> and a child \<open>bogus\<close>. The runtimes differ in the
  \<^verbatim>\<open>start-ns\<close> events: \<^verbatim>\<open>ElementTree\<close> writes a namespace it knows under its usual prefix
  (\<^verbatim>\<open>html\<close> for XHTML) and any other under a generated prefix \<^verbatim>\<open>ns0\<close>, \<^verbatim>\<open>ns1\<close>, ...
\<close>

definition Item :: klass where
  "Item =
     (plain_class ''shop'' ''Item'' [(''id'', Some TInt)])
       \<lparr>k_bases := [XmlSerializableObject]\<rparr>"

definition xhtml :: string where
  "xhtml = ''http://www.w3.org/1999/xhtml''"

definition item_element :: "string \<Rightarrow> element" where
  "item_element ns =
     Element (''{'' @ ns @ ''}Item'') [] None
       [Element (''{'' @ ns @ ''}id'') [] (Some ''7'') []]"

definition item_with_bogus :: element where
  "item_with_bogus =
     Element ''Item'' [] None
       [Element ''id'' [] (Some ''7'') [], Element ''bogus'' [] None []]"

definition shelf_with_bogus :: element where
  "shelf_with_bogus =
     Element ''LegacyShelf'' [] None
       [Element ''items'' [] None [], Element ''bogus'' [] None []]"

definition html_runtime :: runtime where
  "html_runtime = (example_runtime empty_library) \<lparr>rt_start_ns := (\<lambda>e. [(''html'', xhtml)])\<rparr>"

definition generated_runtime :: runtime where
  "generated_runtime =
     (example_runtime empty_library) \<lparr>rt_start_ns := (\<lambda>e. [(''ns0'', ''urn:shop'')])\<rparr>"

section \<open>Registration\<close>

lemma dict_get_dict_set:
  "dict_get (dict_set d k v) k' = (if k' = k then Some v else dict_get d k')"
  by (induction d) (auto simp: dict_get_def)

lemma getattr_setattr:
  "getattr (setattr lib q n f) q' n' =
     (if q' = q \<and> n' = n then Some f else getattr lib q' n')"
  by (auto simp: getattr_def setattr_def dict_get_dict_set split: option.splits)
    (simp_all add: dict_get_def)

lemma klass_attrs_add_properties:
  "klass_attrs (foldl (add_property q) lib ps) = klass_attrs lib"
  by (induction ps arbitrary: lib) (auto simp: add_property_def)

lemma getattr_add_properties:
  "getattr (foldl (add_property q) lib ps) q' n = getattr lib q' n"
  by (simp add: getattr_def klass_attrs_add_properties)

lemma getattr_klass_attrs_cong:
  "klass_attrs lib = klass_attrs lib' \<Longrightarrow> getattr lib q n = getattr lib' q n"
  by (simp add: getattr_def)

text \<open>The guard of \<^verbatim>\<open>register_klass\<close> never holds for a class object.\<close>

lemma is_klass_serializable_False: "is_klass_serializable lib k = False"
  by (simp add: is_klass_serializable_def type_is_typing_Type_def klass_in_keys_def)

lemma getattr_other_fields:
  "getattr (lib\<lparr>klass_mappings := x\<rparr>) q n = getattr lib q n"
  "getattr (lib\<lparr>klass_property_mappings := y\<rparr>) q n = getattr lib q n"
  by (simp_all add: getattr_def)

lemma getattr_register_klass:
  "getattr (register_klass lib k a ts) q' n =
     (if q' = qualified_class_name k \<and> n = ''as_xml'' \<and> XML \<in> set ts then Some Fn_as_xml
      else if q' = qualified_class_name k \<and> n = ''from_json'' \<and> JSON \<in> set ts then Some Fn_from_json
      else if q' = qualified_class_name k \<and> n = ''as_json'' \<and> JSON \<in> set ts then Some Fn_as_json
      else getattr lib q' n)"
proof (cases "JSON \<in> set ts")
  case True
  show ?thesis
  proof (cases "XML \<in> set ts")
    case True
    with \<open>JSON \<in> set ts\<close> show ?thesis
      by (simp add: register_klass_def is_klass_serializable_False Let_def getattr_setattr
          getattr_add_properties getattr_other_fields)
  next
    case False
    with \<open>JSON \<in> set ts\<close> show ?thesis
      by (simp add: register_klass_def is_klass_serializable_False Let_def getattr_setattr
          getattr_add_properties getattr_other_fields)
  qed
next
  case False
  show ?thesis
  proof (cases "XML \<in> set ts")
    case True
    with \<open>JSON \<notin> set ts\<close> show ?thesis
      by (simp add: register_klass_def is_klass_serializable_False Let_def getattr_setattr
          getattr_add_properties getattr_other_fields)
  next
    case False
    with \<open>JSON \<notin> set ts\<close> show ?thesis
      by (simp add: register_klass_def is_klass_serializable_False Let_def getattr_setattr
          getattr_add_properties getattr_other_fields)
  qed
qed


lemma other_fields_setattr:
  "klass_mappings (setattr lib q n f) = klass_mappings lib"
  "klass_property_mappings (setattr lib q n f) = klass_property_mappings lib"
  by (simp_all add: setattr_def)

lemma klass_mappings_add_properties:
  "klass_mappings (foldl (add_property q) lib ps) = klass_mappings lib"
  by (induction ps arbitrary: lib) (auto simp: add_property_def)

text \<open>Registration writes the class metadata under the qualified name, whatever was there.\<close>

lemma klass_mappings_register_klass:
  "klass_mappings (register_klass lib k a ts) =
     dict_set (klass_mappings lib) (qualified_class_name k)
       \<lparr>sc_name = k_name k, sc_custom_name = None, sc_serialization_types = ts\<rparr>"
  by (cases "JSON \<in> set ts"; cases "XML \<in> set ts")
     (simp_all add: register_klass_def is_klass_serializable_False Let_def other_fields_setattr
        klass_mappings_add_properties)

text \<open>
  C10. Registration with XML among the serialization types sets \<^verbatim>\<open>as_xml\<close> on the class;
  no registration sets \<^verbatim>\<open>from_xml\<close> on any class; registration with JSON sets both
  \<^verbatim>\<open>as_json\<close> and \<^verbatim>\<open>from_json\<close>, and without JSON it sets neither.
\<close>

theorem register_klass_injected_methods:
  "(XML \<in> set ts \<longrightarrow>
      getattr (register_klass lib k a ts) (qualified_class_name k) ''as_xml'' = Some Fn_as_xml)
   \<and> getattr (register_klass lib k a ts) q ''from_xml'' = getattr lib q ''from_xml''
   \<and> (JSON \<in> set ts \<longrightarrow>
        getattr (register_klass lib k a ts) (qualified_class_name k) ''as_json'' = Some Fn_as_json
        \<and> getattr (register_klass lib k a ts) (qualified_class_name k) ''from_json'' = Some Fn_from_json)
   \<and> (JSON \<notin> set ts \<longrightarrow>
        getattr (register_klass lib k a ts) q ''as_json'' = getattr lib q ''as_json''
        \<and> getattr (register_klass lib k a ts) q ''from_json'' = getattr lib q ''from_json'')"
  by (simp add: getattr_register_klass)

theorem register_klass_injected_methods_witness:
  "getattr (register_klass empty_library Box None [XML]) ''shop.Box'' ''as_xml'' = Some Fn_as_xml
   \<and> getattr (register_klass empty_library Box None [XML]) ''shop.Box'' ''from_xml'' = None
   \<and> getattr (register_klass empty_library Box None [XML]) ''shop.Box'' ''from_json'' = None
   \<and> getattr (register_klass empty_library Box None [JSON]) ''shop.Box'' ''from_json'' = Some Fn_from_json
   \<and> getattr (register_klass empty_library Box None [JSON]) ''shop.Box'' ''as_json'' = Some Fn_as_json"
proof -
  have q: "qualified_class_name Box = ''shop.Box''"
    by (simp add: qualified_class_name_def Box_def plain_class_def)
  have e: "getattr empty_library q n = None" for q n
    by (simp add: getattr_def empty_library_def dict_get_def)
  show ?thesis
    using register_klass_injected_methods [of "[XML]" empty_library Box None "''shop.Box''"]
      register_klass_injected_methods [of "[JSON]" empty_library Box None "''shop.Box''"]
    by (simp add: q e)
qed


lemma Box_names:
  "qualified_class_name Box = ''shop.Box''" "k_name Box = ''Box''"
  "k_properties Box = [(''id'', Some TInt), (''label'', Some TStr)]"
  by (simp_all add: qualified_class_name_def Box_def plain_class_def)

lemma once_km: "klass_mappings registered_once
     = [(''shop.Box'', \<lparr>sc_name = ''Box'', sc_custom_name = None, sc_serialization_types = [JSON]\<rparr>)]"
  by (simp add: registered_once_def register_xml_property_attribute_def
      klass_mappings_register_klass Box_names empty_library_def)

lemma twice_km: "klass_mappings registered_twice
     = [(''shop.Box'', \<lparr>sc_name = ''Box'', sc_custom_name = None, sc_serialization_types = [XML]\<rparr>)]"
  by (simp add: registered_twice_def klass_mappings_register_klass Box_names once_km)

lemma getattr_register_xml_property_attribute:
  "getattr (register_xml_property_attribute lib qn) q n = getattr lib q n"
  by (simp add: getattr_def register_xml_property_attribute_def)

lemma getattr_empty_library: "getattr empty_library q n = None"
  by (simp add: getattr_def empty_library_def dict_get_def)

lemma once_attr: "getattr registered_once ''shop.Box'' ''as_xml'' = None"
  by (simp add: registered_once_def getattr_register_xml_property_attribute
      getattr_register_klass Box_names getattr_empty_library)

lemma twice_attr: "getattr registered_twice ''shop.Box'' ''as_xml'' = Some Fn_as_xml"
  by (simp add: registered_twice_def getattr_register_klass Box_names)

lemma once_flags: "attribute_flags registered_once ''shop.Box'' = [(''id'', False), (''label'', False)]"
  by (simp add: attribute_flags_def registered_once_def register_klass_def
      is_klass_serializable_False Let_def Box_names empty_library_def add_property_def
      new_property_def setattr_def dict_get_def register_xml_property_attribute_def)

lemma twice_flags: "attribute_flags registered_twice ''shop.Box'' = [(''id'', True), (''label'', False)]"
  by (simp add: attribute_flags_def registered_twice_def registered_once_def register_klass_def
      is_klass_serializable_False Let_def Box_names empty_library_def add_property_def
      new_property_def setattr_def dict_get_def register_xml_property_attribute_def)

text \<open>
  C3, at a concrete input. The second registration of \<^verbatim>\<open>Box\<close> is not a no-op: there is
  still one entry for \<^verbatim>\<open>shop.Box\<close>, but the class metadata, the property metadata and
  the methods set on the class have all been replaced.
\<close>

theorem register_klass_twice_replaces:
  "klass_mappings registered_once
     = [(''shop.Box'', \<lparr>sc_name = ''Box'', sc_custom_name = None, sc_serialization_types = [JSON]\<rparr>)]
   \<and> klass_mappings registered_twice
     = [(''shop.Box'', \<lparr>sc_name = ''Box'', sc_custom_name = None, sc_serialization_types = [XML]\<rparr>)]
   \<and> attribute_flags registered_once ''shop.Box'' = [(''id'', False), (''label'', False)]
   \<and> attribute_flags registered_twice ''shop.Box'' = [(''id'', True), (''label'', False)]
   \<and> getattr registered_once ''shop.Box'' ''as_xml'' = None
   \<and> getattr registered_twice ''shop.Box'' ''as_xml'' = Some Fn_as_xml"
  using once_km twice_km once_flags twice_flags once_attr twice_attr by simp

section \<open>Shape of the encoded element\<close>

lemma append_simps:
  "e_tag (append e c) = e_tag e" "e_attrib (append e c) = e_attrib e"
  "e_text (append e c) = e_text e" "e_children (append e c) = e_children e @ [c]"
  by (simp_all add: append_def)

lemma SubElement_text_simps:
  "e_tag (SubElement_text e n s) = e_tag e" "e_attrib (SubElement_text e n s) = e_attrib e"
  "e_text (SubElement_text e n s) = e_text e"
  "e_children (SubElement_text e n s) = e_children e @ [Element n [] (Some s) []]"
  by (simp_all add: SubElement_text_def append_def)

lemma set_text_simps:
  "e_tag (set_text e s) = e_tag e" "e_attrib (set_text e s) = e_attrib e"
  "e_text (set_text e s) = Some s" "e_children (set_text e s) = e_children e"
  by (simp_all add: set_text_def)

lemma priv_as_xml_items_frame:
  "priv_as_xml_items rt p nk js e = Inr e' \<Longrightarrow> e_tag e' = e_tag e \<and> e_attrib e' = e_attrib e"
proof (induction js arbitrary: e)
  case Nil
  then show ?case by simp
next
  case (Cons j js)
  from Cons.prems show ?case
    by (auto split: sum.splits bool.splits if_splits dest!: Cons.IH
        simp: append_simps SubElement_text_simps)
qed

lemma priv_as_xml_property_frame:
  "priv_as_xml_property rt info k v e = Inr e' \<Longrightarrow> e_tag e' = e_tag e \<and> e_attrib e' = e_attrib e"
  unfolding priv_as_xml_property.simps
  by (auto split: sum.splits bool.splits if_splits option.splits pyval.splits
      dest!: priv_as_xml_items_frame simp: append_simps SubElement_text_simps set_text_simps)

lemma priv_as_xml_elements_frame:
  "priv_as_xml_elements rt info d e = Inr e' \<Longrightarrow> e_tag e' = e_tag e \<and> e_attrib e' = e_attrib e"
proof (induction d arbitrary: e)
  case Nil
  then show ?case by simp
next
  case (Cons kv d)
  from Cons.prems show ?case
    by (auto split: sum.splits dest!: Cons.IH priv_as_xml_property_frame)
qed


lemma legacy_as_xml_items_frame:
  "legacy_as_xml_items rt ik js e = Inr e' \<Longrightarrow> e_tag e' = e_tag e \<and> e_attrib e' = e_attrib e"
proof (induction js arbitrary: e)
  case Nil
  then show ?case by simp
next
  case (Cons j js)
  from Cons.prems show ?case
    by (auto split: sum.splits if_splits dest!: Cons.IH
        simp: append_simps SubElement_text_simps)
qed

lemma legacy_as_xml_property_frame:
  "legacy_as_xml_property rt k key v e = Inr e' \<Longrightarrow> e_tag e' = e_tag e \<and> e_attrib e' = e_attrib e"
  unfolding legacy_as_xml_property.simps
  by (auto split: sum.splits if_splits option.splits pyval.splits mapped.splits
        xml_array_serialization_type.splits prod.splits
      dest!: legacy_as_xml_items_frame simp: append_simps SubElement_text_simps set_text_simps)

lemma legacy_as_xml_elements_frame:
  "legacy_as_xml_elements rt k d e = Inr e' \<Longrightarrow> e_tag e' = e_tag e \<and> e_attrib e' = e_attrib e"
proof (induction d arbitrary: e)
  case Nil
  then show ?case by simp
next
  case (Cons kv d)
  from Cons.prems show ?case
    by (auto split: sum.splits dest!: Cons.IH legacy_as_xml_property_frame)
qed

text \<open>An element name that is given and not empty is the tag of the result.\<close>

lemma call_as_xml_tag:
  assumes "call_as_xml rt v (Some n) = Inr e" and "n \<noteq> []"
  shows "e_tag e = n"
  using assms unfolding call_as_xml.simps
  by (auto split: pyval.splits option.splits as_xml_impl.splits sum.splits
      simp: root_tag_def dest!: priv_as_xml_elements_frame legacy_as_xml_elements_frame)

lemma priv_as_xml_items_children:
  assumes "priv_as_xml_items rt p nk js e = Inr e'" and "nk \<noteq> []"
  shows "\<exists>cs. e_children e' = e_children e @ cs \<and> length cs = length js
           \<and> (\<forall>c\<in>set cs. e_tag c = nk)"
  using assms(1)
proof (induction js arbitrary: e)
  case Nil
  then show ?case by simp
next
  case (Cons j js)
  have "\<exists>c. e_tag c = nk \<and> priv_as_xml_items rt p nk js (append e c) = Inr e'"
  proof (cases "is_primitive_type p")
    case (Inl err)
    with Cons.prems show ?thesis by simp
  next
    case (Inr b)
    show ?thesis
    proof (cases b)
      case True
      with Inr Cons.prems obtain s where
        "priv_as_xml_items rt p nk js (SubElement_text e nk s) = Inr e'"
        by (auto split: sum.splits if_splits)
      then have "e_tag (Element nk [] (Some s) []) = nk
          \<and> priv_as_xml_items rt p nk js (append e (Element nk [] (Some s) [])) = Inr e'"
        by (simp add: SubElement_text_def)
      then show ?thesis by blast
    next
      case False
      with Inr Cons.prems obtain child where
        child: "call_as_xml rt j (Some nk) = Inr child"
          "priv_as_xml_items rt p nk js (append e child) = Inr e'"
        by (auto split: sum.splits)
      from call_as_xml_tag [OF child(1) assms(2)] child(2) show ?thesis by blast
    qed
  qed
  then obtain e1 c where
    step: "e1 = append e c" "e_tag c = nk" "priv_as_xml_items rt p nk js e1 = Inr e'"
    by blast
  from Cons.IH [OF step(3)] obtain cs where
    cs: "e_children e' = e_children e1 @ cs" "length cs = length js" "\<forall>c\<in>set cs. e_tag c = nk"
    by blast
  have "e_children e' = e_children e @ (c # cs)"
    using cs(1) step(1) by (simp add: append_simps)
  moreover have "length (c # cs) = length (j # js)" using cs(2) by simp
  moreover have "\<forall>x\<in>set (c # cs). e_tag x = nk" using cs(3) step(2) by simp
  ultimately show ?case by blast
qed


lemma str_int_examples: "str_int 1 = ''1''" "str_int 2 = ''2''" "str_int 3 = ''3''"
  by code_simp+

lemma lower_examples: "lower ''True'' = ''true''" "lower ''False'' = ''false''"
  by code_simp+

lemma shelf_property_info:
  "property_info (example_runtime (shelf_library placement)) (CRef ''shop'' ''Shelf'' ''Shelf'')
     = [(''items'', items_property placement)]"
  by (simp add: property_info_def example_runtime_def shelf_library_def class_key_def
      register_klass_def is_klass_serializable_False Let_def Shelf_def plain_class_def
      qualified_class_name_def register_xml_property_array_config_def empty_library_def
      add_property_def new_property_def setattr_def dict_get_def items_property_def)

lemma items_property_kind:
  "is_array (items_property placement) = Inr True"
  "is_primitive_type (items_property placement) = Inr True"
  "concrete_type (items_property placement) = Inr TInt"
  by (simp_all add: is_array_def is_primitive_type_def concrete_type_def is_optional_def
      the_type_def unpack1_def items_property_def ARRAY_TYPES_def PRIMITIVE_TYPES_def)

lemma items_property_fields:
  "sp_is_xml_attribute (items_property placement) = False"
  "sp_custom_type (items_property placement) = None"
  "sp_custom_names (items_property placement) = Own []"
  "sp_xml_array_config (items_property placement) = Some (placement, ''item'')"
  "sp_type (items_property placement) = Some (TList TInt)"
  by (simp_all add: items_property_def)

lemma shelf_items_nested:
  "priv_as_xml_property (example_runtime (shelf_library NESTED)) [(''items'', items_property NESTED)]
     ''_items'' (PList [PInt 1, PInt 2, PInt 3]) (Element ''Shelf'' [] None [])
   = Inr (Element ''Shelf'' [] None
       [Element ''items'' [] None
          [Element ''item'' [] (Some ''1'') [], Element ''item'' [] (Some ''2'') [],
           Element ''item'' [] (Some ''3'') []]])"
  by (simp add: priv_as_xml_property.simps skipped_key_def dict_get_def items_property_kind
      xml_name_def custom_name_def custom_names_def iter_items_def encode_name_def
      example_runtime_def identity_formatter_def py_str_def str_int_examples
      SubElement_text_def append_def items_property_fields)


lemma shelf_items_flat:
  "priv_as_xml_property (example_runtime (shelf_library FLAT)) [(''items'', items_property FLAT)]
     ''_items'' (PList [PInt 1, PInt 2, PInt 3]) (Element ''Shelf'' [] None [])
   = Inr (Element ''Shelf'' [] None
       [Element ''item'' [] (Some ''1'') [], Element ''item'' [] (Some ''2'') [],
        Element ''item'' [] (Some ''3'') []])"
  by (simp add: priv_as_xml_property.simps skipped_key_def dict_get_def items_property_kind
      xml_name_def custom_name_def custom_names_def iter_items_def encode_name_def
      example_runtime_def identity_formatter_def py_str_def str_int_examples
      SubElement_text_def append_def items_property_fields)

text \<open>
  The items loop of \<^verbatim>\<open>_as_xml\<close> over items of a primitive type: one child per item,
  tagged with the configured name.
\<close>

lemma priv_as_xml_items_primitive:
  assumes "is_primitive_type p = Inr True" and "concrete_type p = Inr t"
  shows "priv_as_xml_items rt p nk js e =
     Inr (Element (e_tag e) (e_attrib e) (e_text e)
           (e_children e @
              map (\<lambda>j. Element nk [] (Some (if t = TBool then lower (py_str rt j) else py_str rt j)) [])
                js))"
proof (induction js arbitrary: e)
  case Nil
  show ?case by (cases e) simp
next
  case (Cons j js)
  show ?case
    using assms by (simp add: Cons.IH SubElement_text_simps)
qed

text \<open>
  One pass of the element loop of \<^verbatim>\<open>_as_xml\<close> over an array property of a primitive
  type, the property being in the element set, with no custom type and no text mapping:
  with the configuration (NESTED, \<open>nk\<close>) the pass appends one element, tagged with the
  wire name of the property, that holds one child tagged \<open>nk\<close> per item; with
  (FLAT, \<open>nk\<close>) it appends one child tagged \<open>nk\<close> per item to the parent, and no wrapper.
\<close>

lemma priv_as_xml_array_placement:
  assumes p: "dict_get info (drop 1 k) = Some p"
    and key: "\<not> skipped_key (drop 1 k)"
    and element: "\<not> sp_is_xml_attribute p"
    and named: "xml_name rt p (drop 1 k) \<noteq> ''.''"
    and plain: "sp_custom_type p = None"
    and array: "is_array p = Inr True"
    and primitive: "is_primitive_type p = Inr True"
    and concrete: "concrete_type p = Inr t"
    and items: "iter_items v = Inr js"
  shows "sp_xml_array_config p = Some (NESTED, nk) \<Longrightarrow>
           priv_as_xml_property rt info k v this_e =
             Inr (append this_e
                   (Element (encode_name rt (xml_name rt p (drop 1 k))) [] None
                      (map (\<lambda>j. Element nk []
                                (Some (if t = TBool then lower (py_str rt j) else py_str rt j)) [])
                         js)))"
    and "sp_xml_array_config p = Some (FLAT, nk) \<Longrightarrow>
           priv_as_xml_property rt info k v this_e =
             Inr (Element (e_tag this_e) (e_attrib this_e) (e_text this_e)
                   (e_children this_e @
                      map (\<lambda>j. Element nk []
                                (Some (if t = TBool then lower (py_str rt j) else py_str rt j)) [])
                        js))"
proof -
  have v: "v \<noteq> PNone"
    using items by (auto simp: iter_items_def)
  show "sp_xml_array_config p = Some (NESTED, nk) \<Longrightarrow>
           priv_as_xml_property rt info k v this_e =
             Inr (append this_e
                   (Element (encode_name rt (xml_name rt p (drop 1 k))) [] None
                      (map (\<lambda>j. Element nk []
                                (Some (if t = TBool then lower (py_str rt j) else py_str rt j)) [])
                         js)))"
    unfolding priv_as_xml_property.simps
    using p key element named plain array items v
    by (simp add: priv_as_xml_items_primitive [OF primitive concrete])
  show "sp_xml_array_config p = Some (FLAT, nk) \<Longrightarrow>
           priv_as_xml_property rt info k v this_e =
             Inr (Element (e_tag this_e) (e_attrib this_e) (e_text this_e)
                   (e_children this_e @
                      map (\<lambda>j. Element nk []
                                (Some (if t = TBool then lower (py_str rt j) else py_str rt j)) [])
                        js))"
    unfolding priv_as_xml_property.simps
    using p key element named plain array items v
    by (simp add: priv_as_xml_items_primitive [OF primitive concrete])
qed

lemma ConfiguredShelf_fields:
  "k_properties_as_attributes (ConfiguredShelf pl) = {}"
  "k_property_key_mappings (ConfiguredShelf pl) = []"
  "k_property_data_class_mappings (ConfiguredShelf pl) = []"
  "k_array_property_configuration (ConfiguredShelf pl)
     = [(''items'', (pl, ''item'', MappedCallable (\<lambda>j. Inr j)))]"
  by (simp_all add: ConfiguredShelf_def LegacyShelf_def plain_class_def)

text \<open>
  C4, at a concrete input. A class derives from \<^verbatim>\<open>XmlSerializableObject\<close> and configures
  its property \<^verbatim>\<open>items\<close> as (NESTED, \<open>item\<close>); the object holds the items 1, 2 and 3.
  \<^verbatim>\<open>XmlSerializableObject.as_xml\<close> writes one wrapper \<open>items\<close>, and tags the three
  children \<open>items\<close>, the name of the wrapper, where the configured child tag is \<open>item\<close>.
  With (FLAT, \<open>item\<close>) it writes three children tagged \<open>item\<close> under the parent.
  \<^verbatim>\<open>_as_xml\<close>, on a registered class with the same property and configuration, tags the
  three children \<open>item\<close> in both placements.
\<close>

theorem legacy_nested_items_tagged_as_wrapper:
  "XmlSerializableObject_as_xml (example_runtime empty_library) (ConfiguredShelf NESTED)
       legacy_shelf None
     = Inr (Element ''LegacyShelf'' [] None
         [Element ''items'' [] None
            [Element ''items'' [] (Some ''1'') [], Element ''items'' [] (Some ''2'') [],
             Element ''items'' [] (Some ''3'') []]])
   \<and> XmlSerializableObject_as_xml (example_runtime empty_library) (ConfiguredShelf FLAT)
       legacy_shelf None
     = Inr (Element ''LegacyShelf'' [] None
         [Element ''item'' [] (Some ''1'') [], Element ''item'' [] (Some ''2'') [],
          Element ''item'' [] (Some ''3'') []])
   \<and> priv_as_xml (example_runtime (shelf_library NESTED)) shelf None
     = Inr (Element ''Shelf'' [] None
         [Element ''items'' [] None
            [Element ''item'' [] (Some ''1'') [], Element ''item'' [] (Some ''2'') [],
             Element ''item'' [] (Some ''3'') []]])
   \<and> priv_as_xml (example_runtime (shelf_library FLAT)) shelf None
     = Inr (Element ''Shelf'' [] None
         [Element ''item'' [] (Some ''1'') [], Element ''item'' [] (Some ''2'') [],
          Element ''item'' [] (Some ''3'') []])"
proof (intro conjI)
  have scalar: "has_as_xml rt (PInt i) = False" for rt i
    by (simp add: has_as_xml_def)
  show "XmlSerializableObject_as_xml (example_runtime empty_library) (ConfiguredShelf NESTED)
       legacy_shelf None
     = Inr (Element ''LegacyShelf'' [] None
         [Element ''items'' [] None
            [Element ''items'' [] (Some ''1'') [], Element ''items'' [] (Some ''2'') [],
             Element ''items'' [] (Some ''3'') []]])"
    by (simp add: XmlSerializableObject_as_xml_def legacy_shelf_def root_tag_def
        as_xml_attributes_def as_xml_attribute_def legacy_as_xml_property.simps
        skipped_key_def dict_get_def ConfiguredShelf_fields key_mapping_def scalar
        encode_name_def formatter_encode_def example_runtime_def identity_formatter_def
        py_str_def str_int_examples SubElement_text_def append_def)
  show "XmlSerializableObject_as_xml (example_runtime empty_library) (ConfiguredShelf FLAT)
       legacy_shelf None
     = Inr (Element ''LegacyShelf'' [] None
         [Element ''item'' [] (Some ''1'') [], Element ''item'' [] (Some ''2'') [],
          Element ''item'' [] (Some ''3'') []])"
    by (simp add: XmlSerializableObject_as_xml_def legacy_shelf_def root_tag_def
        as_xml_attributes_def as_xml_attribute_def legacy_as_xml_property.simps
        skipped_key_def dict_get_def ConfiguredShelf_fields key_mapping_def scalar
        encode_name_def formatter_encode_def example_runtime_def identity_formatter_def
        py_str_def str_int_examples SubElement_text_def append_def)
  have root: "root_tag (example_runtime lib) (CRef ''shop'' ''Shelf'' ''Shelf'') None = Inr ''Shelf''"
    for lib
    by (simp add: root_tag_def formatter_encode_def example_runtime_def identity_formatter_def)
  have attrs: "priv_as_xml_attributes (example_runtime lib) [(''items'', items_property pl)]
      [(''_items'', PList [PInt 1, PInt 2, PInt 3])] = []" for lib pl
    by (simp add: priv_as_xml_attributes_def priv_as_xml_attribute_def skipped_key_def
        dict_get_def items_property_fields)
  show "priv_as_xml (example_runtime (shelf_library NESTED)) shelf None
     = Inr (Element ''Shelf'' [] None
         [Element ''items'' [] None
            [Element ''item'' [] (Some ''1'') [], Element ''item'' [] (Some ''2'') [],
             Element ''item'' [] (Some ''3'') []]])"
    by (simp add: priv_as_xml_def shelf_def shelf_property_info root attrs shelf_items_nested)
  show "priv_as_xml (example_runtime (shelf_library FLAT)) shelf None
     = Inr (Element ''Shelf'' [] None
         [Element ''item'' [] (Some ''1'') [], Element ''item'' [] (Some ''2'') [],
          Element ''item'' [] (Some ''3'') []])"
    by (simp add: priv_as_xml_def shelf_def shelf_property_info root attrs shelf_items_flat)
qed

section \<open>Attributes\<close>

lemma priv_as_xml_attribute_key:
  "priv_as_xml_attribute rt info attrs kv =
     (case attribute_key rt info (fst kv) of
        None \<Rightarrow> attrs
      | Some n \<Rightarrow> dict_set attrs n (py_str rt (snd kv)))"
  by (cases kv) (simp add: priv_as_xml_attribute_def attribute_key_def split: option.splits)

lemma attributes_last_writer:
  assumes "\<forall>kv\<in>set d. attribute_key rt info (fst kv) = Some n \<longrightarrow> py_str rt (snd kv) = s"
  shows "dict_get (foldl (priv_as_xml_attribute rt info) attrs d) n =
           (if \<exists>kv\<in>set d. attribute_key rt info (fst kv) = Some n then Some s
            else dict_get attrs n)"
  using assms
proof (induction d arbitrary: attrs)
  case Nil
  show ?case by simp
next
  case (Cons x d)
  have step: "dict_get (priv_as_xml_attribute rt info attrs x) n =
      (if attribute_key rt info (fst x) = Some n then Some s else dict_get attrs n)"
    using Cons.prems
    by (auto simp: priv_as_xml_attribute_key dict_get_dict_set split: option.splits)
  have "\<forall>kv\<in>set d. attribute_key rt info (fst kv) = Some n \<longrightarrow> py_str rt (snd kv) = s"
    using Cons.prems by simp
  from Cons.IH [OF this, of "priv_as_xml_attribute rt info attrs x"] step
  show ?case by auto
qed

lemma as_xml_attribute_key:
  "as_xml_attribute rt cls attrs kv =
     (case legacy_attribute_key rt cls (fst kv) of
        None \<Rightarrow> attrs
      | Some n \<Rightarrow> dict_set attrs n (py_str rt (snd kv)))"
  by (cases kv) (simp add: as_xml_attribute_def legacy_attribute_key_def)

lemma legacy_attributes_last_writer:
  assumes "\<forall>kv\<in>set d. legacy_attribute_key rt cls (fst kv) = Some n \<longrightarrow> py_str rt (snd kv) = s"
  shows "dict_get (foldl (as_xml_attribute rt cls) attrs d) n =
           (if \<exists>kv\<in>set d. legacy_attribute_key rt cls (fst kv) = Some n then Some s
            else dict_get attrs n)"
  using assms
proof (induction d arbitrary: attrs)
  case Nil
  show ?case by simp
next
  case (Cons x d)
  have step: "dict_get (as_xml_attribute rt cls attrs x) n =
      (if legacy_attribute_key rt cls (fst x) = Some n then Some s else dict_get attrs n)"
    using Cons.prems
    by (auto simp: as_xml_attribute_key dict_get_dict_set split: option.splits)
  have "\<forall>kv\<in>set d. legacy_attribute_key rt cls (fst kv) = Some n \<longrightarrow> py_str rt (snd kv) = s"
    using Cons.prems by simp
  from Cons.IH [OF this, of "as_xml_attribute rt cls attrs x"] step
  show ?case by auto
qed

text \<open>
  C9. Let the dictionary of an object hold \<^verbatim>\<open>None\<close> under a key that the encoders do not
  skip.

  \<^verbatim>\<open>_as_xml\<close>: when the property is flagged as an XML attribute (and every entry written
  under the same attribute name is \<^verbatim>\<open>None\<close> too, the last one written being the one
  kept), the attribute loop writes the attribute with the text \<open>None\<close>; and whenever
  the root tag is there and the element loop, started on the element that carries these
  attributes, returns an element, \<^verbatim>\<open>_as_xml\<close> returns that element and it carries the
  attribute with the text \<open>None\<close>.

  \<^verbatim>\<open>XmlSerializableObject.as_xml\<close>: the same, the property being among
  \<^verbatim>\<open>properties_as_attributes\<close>.

  In both, the pass of the element loop over a \<^verbatim>\<open>None\<close> value changes nothing.
\<close>

theorem none_attribute_is_emitted:
  assumes entry: "(k, PNone) \<in> set d"
    and key: "\<not> skipped_key (drop 1 k)"
  shows "(dict_get (property_info rt c) (drop 1 k) = Some p \<and> sp_is_xml_attribute p
          \<and> (\<forall>kv\<in>set d. attribute_key rt (property_info rt c) (fst kv)
                = Some (encode_name rt (xml_name rt p (drop 1 k))) \<longrightarrow> snd kv = PNone)
          \<longrightarrow> dict_get (priv_as_xml_attributes rt (property_info rt c) d)
                (encode_name rt (xml_name rt p (drop 1 k))) = Some ''None''
            \<and> (root_tag rt c element_name = Inr t
                \<and> priv_as_xml_elements rt (property_info rt c) d
                     (Element t (priv_as_xml_attributes rt (property_info rt c) d) None []) = Inr e
                \<longrightarrow> priv_as_xml rt (PObj c d) element_name = Inr e
                  \<and> dict_get (e_attrib e) (encode_name rt (xml_name rt p (drop 1 k)))
                      = Some ''None''))
       \<and> (drop 1 k \<in> k_properties_as_attributes cls
          \<and> (\<forall>kv\<in>set d. legacy_attribute_key rt cls (fst kv)
                = Some (encode_name rt (key_mapping cls (drop 1 k))) \<longrightarrow> snd kv = PNone)
          \<longrightarrow> dict_get (as_xml_attributes rt cls d)
                (encode_name rt (key_mapping cls (drop 1 k))) = Some ''None''
            \<and> (root_tag rt c element_name = Inr t
                \<and> legacy_as_xml_elements rt cls d
                     (Element t (as_xml_attributes rt cls d) None []) = Inr e'
                \<longrightarrow> XmlSerializableObject_as_xml rt cls (PObj c d) element_name = Inr e'
                  \<and> dict_get (e_attrib e') (encode_name rt (key_mapping cls (drop 1 k)))
                      = Some ''None''))
       \<and> priv_as_xml_property rt info k PNone this_e = Inr this_e
       \<and> legacy_as_xml_property rt cls k PNone this_e = Inr this_e"
proof (intro conjI impI)
  let ?n = "encode_name rt (xml_name rt p (drop 1 k))"
  let ?attrs = "priv_as_xml_attributes rt (property_info rt c) d"
  assume a: "dict_get (property_info rt c) (drop 1 k) = Some p \<and> sp_is_xml_attribute p
      \<and> (\<forall>kv\<in>set d. attribute_key rt (property_info rt c) (fst kv) = Some ?n
            \<longrightarrow> snd kv = PNone)"
  have written: "attribute_key rt (property_info rt c) k = Some ?n"
    using a key by (simp add: attribute_key_def)
  have all: "\<forall>kv\<in>set d. attribute_key rt (property_info rt c) (fst kv) = Some ?n
      \<longrightarrow> py_str rt (snd kv) = ''None''"
    using a by (auto simp: py_str_def)
  have "\<exists>kv\<in>set d. attribute_key rt (property_info rt c) (fst kv) = Some ?n"
    using entry written by force
  with attributes_last_writer [OF all, of "[]"]
  show attr: "dict_get ?attrs ?n = Some ''None''"
    by (simp add: priv_as_xml_attributes_def)
  assume b: "root_tag rt c element_name = Inr t
      \<and> priv_as_xml_elements rt (property_info rt c) d (Element t ?attrs None []) = Inr e"
  then show "priv_as_xml rt (PObj c d) element_name = Inr e"
    by (simp add: priv_as_xml_def)
  from b have "e_attrib e = ?attrs"
    by (auto dest!: priv_as_xml_elements_frame)
  with attr show "dict_get (e_attrib e) ?n = Some ''None''" by simp
next
  let ?n = "encode_name rt (key_mapping cls (drop 1 k))"
  let ?attrs = "as_xml_attributes rt cls d"
  assume a: "drop 1 k \<in> k_properties_as_attributes cls
      \<and> (\<forall>kv\<in>set d. legacy_attribute_key rt cls (fst kv) = Some ?n \<longrightarrow> snd kv = PNone)"
  have written: "legacy_attribute_key rt cls k = Some ?n"
    using a key by (simp add: legacy_attribute_key_def)
  have all: "\<forall>kv\<in>set d. legacy_attribute_key rt cls (fst kv) = Some ?n
      \<longrightarrow> py_str rt (snd kv) = ''None''"
    using a by (auto simp: py_str_def)
  have "\<exists>kv\<in>set d. legacy_attribute_key rt cls (fst kv) = Some ?n"
    using entry written by force
  with legacy_attributes_last_writer [OF all, of "[]"]
  show attr: "dict_get ?attrs ?n = Some ''None''"
    by (simp add: as_xml_attributes_def)
  assume b: "root_tag rt c element_name = Inr t
      \<and> legacy_as_xml_elements rt cls d (Element t ?attrs None []) = Inr e'"
  then show "XmlSerializableObject_as_xml rt cls (PObj c d) element_name = Inr e'"
    by (simp add: XmlSerializableObject_as_xml_def)
  from b have "e_attrib e' = ?attrs"
    by (auto dest!: legacy_as_xml_elements_frame)
  with attr show "dict_get (e_attrib e') ?n = Some ''None''" by simp
next
  show "priv_as_xml_property rt info k PNone this_e = Inr this_e"
    by (simp add: priv_as_xml_property.simps)
next
  show "legacy_as_xml_property rt cls k PNone this_e = Inr this_e"
    by (simp add: legacy_as_xml_property.simps)
qed

lemma tag_property_info:
  "property_info (example_runtime tag_library) (CRef ''shop'' ''Tag'' ''Tag'')
     = [(''label'', tag_property ''label'' False), (''ref'', tag_property ''ref'' True)]"
  by (simp add: property_info_def example_runtime_def tag_library_def class_key_def
      register_klass_def is_klass_serializable_False Let_def Tag_def plain_class_def
      qualified_class_name_def register_xml_property_attribute_def empty_library_def
      add_property_def new_property_def setattr_def dict_get_def tag_property_def)

lemma tag_property_fields:
  "sp_is_xml_attribute (tag_property n a) = a"
  "sp_custom_type (tag_property n a) = None"
  "sp_custom_names (tag_property n a) = Own []"
  "sp_xml_array_config (tag_property n a) = None"
  "sp_type (tag_property n a) = Some TStr"
  by (simp_all add: tag_property_def)

lemma tag_property_kind:
  "is_array (tag_property n a) = Inr False"
  "is_enum (tag_property n a) = Inr False"
  "is_primitive_type (tag_property n a) = Inr True"
  by (simp_all add: is_array_def is_enum_def is_primitive_type_def concrete_type_def is_optional_def
      the_type_def tag_property_def ARRAY_TYPES_def PRIMITIVE_TYPES_def)

lemma example_runtime_simps:
  "encode_name (example_runtime lib) n = n"
  "formatter_encode (example_runtime lib) n = Inr n"
  "formatter_decode (example_runtime lib) n = Inr n"
  "rt_library (example_runtime lib) = lib"
  "rt_classes (example_runtime lib) q = None"
  by (simp_all add: encode_name_def formatter_encode_def formatter_decode_def
      example_runtime_def identity_formatter_def)

lemma tag_as_xml:
  "priv_as_xml (example_runtime tag_library) tag None
     = Inr (Element ''Tag'' [(''ref'', ''None'')] None [Element ''label'' [] (Some ''x'') []])"
  by (simp add: priv_as_xml_def tag_def tag_property_info root_tag_def
      priv_as_xml_attributes_def priv_as_xml_attribute_def priv_as_xml_property.simps
      skipped_key_def dict_get_def tag_property_kind tag_property_fields
      xml_name_def custom_name_def custom_names_def example_runtime_simps
      py_str_def SubElement_text_def append_def)

lemma LegacyTag_fields:
  "k_properties_as_attributes LegacyTag = {''ref''}" "k_property_key_mappings LegacyTag = []"
  "k_property_data_class_mappings LegacyTag = []" "k_array_property_configuration LegacyTag = []"
  by (simp_all add: LegacyTag_def plain_class_def)

lemma legacy_tag_elements:
  "legacy_as_xml_elements (example_runtime tag_library) LegacyTag
       [(''_ref'', PNone), (''_label'', PStr ''x'')] (Element ''Tag'' attrs None [])
     = Inr (Element ''Tag'' attrs None [Element ''label'' [] (Some ''x'') []])"
  by (simp add: legacy_as_xml_property.simps skipped_key_def dict_get_def LegacyTag_fields
      key_mapping_def example_runtime_simps py_str_def SubElement_text_def append_def)

lemma tag_elements:
  "priv_as_xml_elements (example_runtime tag_library)
       [(''label'', tag_property ''label'' False), (''ref'', tag_property ''ref'' True)]
       [(''_ref'', PNone), (''_label'', PStr ''x'')] (Element ''Tag'' attrs None [])
     = Inr (Element ''Tag'' attrs None [Element ''label'' [] (Some ''x'') []])"
  by (simp add: priv_as_xml_property.simps
      skipped_key_def dict_get_def tag_property_kind tag_property_fields
      xml_name_def custom_name_def custom_names_def example_runtime_simps
      py_str_def SubElement_text_def append_def)

theorem none_attribute_is_emitted_witness:
  "priv_as_xml (example_runtime tag_library) tag None
     = Inr (Element ''Tag'' [(''ref'', ''None'')] None [Element ''label'' [] (Some ''x'') []])
   \<and> XmlSerializableObject_as_xml (example_runtime tag_library) LegacyTag tag None
     = Inr (Element ''Tag'' [(''ref'', ''None'')] None [Element ''label'' [] (Some ''x'') []])
   \<and> priv_as_xml_property (example_runtime tag_library) [] ''_ref'' PNone
         (Element ''Tag'' [] None []) = Inr (Element ''Tag'' [] None [])
   \<and> legacy_as_xml_property (example_runtime tag_library) LegacyTag ''_ref'' PNone
         (Element ''Tag'' [] None []) = Inr (Element ''Tag'' [] None [])"
proof -
  let ?rt = "example_runtime tag_library"
  let ?c = "CRef ''shop'' ''Tag'' ''Tag''"
  let ?d = "[(''_ref'', PNone), (''_label'', PStr ''x'')]"
  let ?e = "Element ''Tag'' [(''ref'', ''None'')] None [Element ''label'' [] (Some ''x'') []]"
  have h1: "(''_ref'', PNone) \<in> set ?d" by simp
  have h2: "\<not> skipped_key (drop 1 ''_ref'')" by (simp add: skipped_key_def)
  have n: "encode_name ?rt (xml_name ?rt (tag_property ''ref'' True) ''ref'') = ''ref''"
    by (simp add: example_runtime_simps xml_name_def custom_name_def custom_names_def
        tag_property_fields dict_get_def)
  have m: "encode_name ?rt (key_mapping LegacyTag ''ref'') = ''ref''"
    by (simp add: example_runtime_simps key_mapping_def LegacyTag_fields dict_get_def)
  have attrs: "priv_as_xml_attributes ?rt (property_info ?rt ?c) ?d = [(''ref'', ''None'')]"
    by (simp add: priv_as_xml_attributes_def priv_as_xml_attribute_def tag_property_info
        skipped_key_def dict_get_def tag_property_fields n py_str_def)
  have legacy_attrs: "as_xml_attributes ?rt LegacyTag ?d = [(''ref'', ''None'')]"
    by (simp add: as_xml_attributes_def as_xml_attribute_def skipped_key_def LegacyTag_fields
        m py_str_def)
  have a1: "dict_get (property_info ?rt ?c) (drop 1 ''_ref'') = Some (tag_property ''ref'' True)"
    by (simp add: tag_property_info dict_get_def)
  have a2: "sp_is_xml_attribute (tag_property ''ref'' True)"
    by (simp add: tag_property_fields)
  have a3: "\<forall>kv\<in>set ?d. attribute_key ?rt (property_info ?rt ?c) (fst kv)
        = Some (encode_name ?rt (xml_name ?rt (tag_property ''ref'' True) (drop 1 ''_ref'')))
      \<longrightarrow> snd kv = PNone"
    by (simp add: n attribute_key_def tag_property_info skipped_key_def dict_get_def
        tag_property_fields)
  have a4: "root_tag ?rt ?c None = Inr ''Tag''"
    by (simp add: root_tag_def example_runtime_simps)
  have a5: "priv_as_xml_elements ?rt (property_info ?rt ?c) ?d
      (Element ''Tag'' (priv_as_xml_attributes ?rt (property_info ?rt ?c) ?d) None []) = Inr ?e"
    unfolding attrs by (simp only: tag_property_info tag_elements)
  have b1: "drop 1 ''_ref'' \<in> k_properties_as_attributes LegacyTag"
    by (simp add: LegacyTag_fields)
  have b2: "\<forall>kv\<in>set ?d. legacy_attribute_key ?rt LegacyTag (fst kv)
        = Some (encode_name ?rt (key_mapping LegacyTag (drop 1 ''_ref''))) \<longrightarrow> snd kv = PNone"
    by (simp add: m legacy_attribute_key_def skipped_key_def LegacyTag_fields)
  have b3: "legacy_as_xml_elements ?rt LegacyTag ?d
      (Element ''Tag'' (as_xml_attributes ?rt LegacyTag ?d) None []) = Inr ?e"
    unfolding legacy_attrs by (rule legacy_tag_elements)
  from none_attribute_is_emitted [OF h1 h2, of ?rt ?c "tag_property ''ref'' True" None
      "''Tag''" ?e LegacyTag ?e "[]" "Element ''Tag'' [] None []"]
    a1 a2 a3 a4 a5 b1 b2 b3
  have "priv_as_xml ?rt (PObj ?c ?d) None = Inr ?e
      \<and> XmlSerializableObject_as_xml ?rt LegacyTag (PObj ?c ?d) None = Inr ?e
      \<and> priv_as_xml_property ?rt [] ''_ref'' PNone (Element ''Tag'' [] None [])
          = Inr (Element ''Tag'' [] None [])
      \<and> legacy_as_xml_property ?rt LegacyTag ''_ref'' PNone (Element ''Tag'' [] None [])
          = Inr (Element ''Tag'' [] None [])"
    by blast
  then show ?thesis by (simp add: tag_def)
qed

section \<open>Arrays without configuration, and booleans\<close>

lemma plain_property_fields:
  "sp_is_xml_attribute (plain_property n t cfg) = False"
  "sp_custom_type (plain_property n t cfg) = None"
  "sp_custom_names (plain_property n t cfg) = Own []"
  "sp_xml_array_config (plain_property n t cfg) = cfg"
  "sp_type (plain_property n t cfg) = Some t"
  by (simp_all add: plain_property_def)

lemma plain_property_kinds:
  "is_array (plain_property n (TList t) cfg) = Inr True"
  "is_array (plain_property n (TOptional (TList t)) cfg) = Inr True"
  "is_array (plain_property n (TOptional TBool) cfg) = Inr False"
  "is_array (plain_property n TBool cfg) = Inr False"
  "is_enum (plain_property n (TOptional TBool) cfg) = Inr False"
  "is_enum (plain_property n TBool cfg) = Inr False"
  "is_primitive_type (plain_property n (TOptional TBool) cfg) = Inr True"
  "is_primitive_type (plain_property n TBool cfg) = Inr True"
  "is_primitive_type (plain_property n (TOptional (TList TBool)) cfg) = Inr True"
  "concrete_type (plain_property n (TOptional (TList TBool)) cfg) = Inr TBool"
  by (simp_all add: is_array_def is_enum_def is_primitive_type_def concrete_type_def
      is_optional_def the_type_def unpack1_def unpack2_def plain_property_def
      ARRAY_TYPES_def PRIMITIVE_TYPES_def)

lemma unconfigured_shelf_property_info:
  "property_info (example_runtime unconfigured_shelf_library) (CRef ''shop'' ''Shelf'' ''Shelf'')
     = [(''items'', plain_property ''items'' (TList TInt) None)]"
  by (simp add: property_info_def example_runtime_def unconfigured_shelf_library_def class_key_def
      register_klass_def is_klass_serializable_False Let_def Shelf_def plain_class_def
      qualified_class_name_def empty_library_def
      add_property_def new_property_def setattr_def dict_get_def plain_property_def)

lemma switch_property_info:
  "property_info (example_runtime switch_library) (CRef ''shop'' ''Switch'' ''Switch'')
     = [(''history'', plain_property ''history'' (TOptional (TList TBool)) (Some (FLAT, ''was''))),
        (''maybe'', plain_property ''maybe'' (TOptional TBool) None),
        (''on'', plain_property ''on'' TBool None)]"
  by (simp add: property_info_def example_runtime_def switch_library_def class_key_def
      register_klass_def is_klass_serializable_False Let_def Switch_def plain_class_def
      qualified_class_name_def empty_library_def register_xml_property_array_config_def
      add_property_def new_property_def setattr_def dict_get_def plain_property_def)

lemma has_as_xml_scalar:
  "has_as_xml rt (PInt i) = False" "has_as_xml rt (PBool b) = False"
  by (simp_all add: has_as_xml_def)

text \<open>
  C5, at a concrete input. \<^verbatim>\<open>Shelf\<close> is registered with a property \<^verbatim>\<open>items: List[int]\<close>
  and no array configuration: \<^verbatim>\<open>_as_xml\<close> fails on unpacking
  \<^verbatim>\<open>prop_info.xml_array_config\<close>, which is \<^verbatim>\<open>None\<close>. The older encoder
  \<^verbatim>\<open>XmlSerializableObject.as_xml\<close>, on a class with the same property and no array
  configuration, falls back to FLAT with the property's name.
\<close>

theorem array_without_config_fails:
  "priv_as_xml (example_runtime unconfigured_shelf_library) shelf None
     = Inl (TypeError ''cannot unpack non-iterable NoneType object'')
   \<and> XmlSerializableObject_as_xml (example_runtime empty_library) LegacyShelf legacy_shelf None
     = Inr (Element ''LegacyShelf'' [] None
         [Element ''items'' [] (Some ''1'') [], Element ''items'' [] (Some ''2'') [],
          Element ''items'' [] (Some ''3'') []])"
proof
  show "priv_as_xml (example_runtime unconfigured_shelf_library) shelf None
     = Inl (TypeError ''cannot unpack non-iterable NoneType object'')"
    by (simp add: priv_as_xml_def shelf_def unconfigured_shelf_property_info root_tag_def
        priv_as_xml_attributes_def priv_as_xml_attribute_def priv_as_xml_property.simps
        skipped_key_def dict_get_def plain_property_kinds plain_property_fields
        xml_name_def custom_name_def custom_names_def example_runtime_simps)
next
  have legacy: "k_properties_as_attributes LegacyShelf = {}" "k_property_key_mappings LegacyShelf = []"
    "k_property_data_class_mappings LegacyShelf = []" "k_array_property_configuration LegacyShelf = []"
    by (simp_all add: LegacyShelf_def plain_class_def)
  show "XmlSerializableObject_as_xml (example_runtime empty_library) LegacyShelf legacy_shelf None
     = Inr (Element ''LegacyShelf'' [] None
         [Element ''items'' [] (Some ''1'') [], Element ''items'' [] (Some ''2'') [],
          Element ''items'' [] (Some ''3'') []])"
    by (simp add: XmlSerializableObject_as_xml_def legacy_shelf_def root_tag_def
        as_xml_attributes_def as_xml_attribute_def legacy_as_xml_property.simps
        skipped_key_def dict_get_def legacy key_mapping_def has_as_xml_scalar
        example_runtime_simps py_str_def str_int_examples SubElement_text_def append_def)
qed

text \<open>
  C6, at a concrete input. \<^verbatim>\<open>Switch\<close> has \<^verbatim>\<open>on: bool\<close>, \<^verbatim>\<open>maybe: Optional[bool]\<close> and
  \<^verbatim>\<open>history: Optional[List[bool]]\<close>, the values \<^verbatim>\<open>True\<close>, \<^verbatim>\<open>True\<close> and
  \<^verbatim>\<open>[True, False]\<close>. \<^verbatim>\<open>_as_xml\<close> writes \<open>true\<close> for \<^verbatim>\<open>on\<close> and lower case for the
  array items, but \<open>True\<close> for \<^verbatim>\<open>maybe\<close>: the scalar branch tests \<^verbatim>\<open>prop_info.type_ is bool\<close>
  where the array branch tests \<^verbatim>\<open>prop_info.concrete_type() is bool\<close>.
  \<^verbatim>\<open>XmlSerializableObject.as_xml\<close> writes \<open>True\<close> for any boolean.
\<close>

theorem optional_bool_not_lowered:
  "priv_as_xml (example_runtime switch_library) switch None
     = Inr (Element ''Switch'' [] None
         [Element ''on'' [] (Some ''true'') [], Element ''maybe'' [] (Some ''True'') [],
          Element ''was'' [] (Some ''true'') [], Element ''was'' [] (Some ''false'') []])
   \<and> XmlSerializableObject_as_xml (example_runtime empty_library) LegacySwitch legacy_switch None
     = Inr (Element ''LegacySwitch'' [] None [Element ''on'' [] (Some ''True'') []])"
proof
  show "priv_as_xml (example_runtime switch_library) switch None
     = Inr (Element ''Switch'' [] None
         [Element ''on'' [] (Some ''true'') [], Element ''maybe'' [] (Some ''True'') [],
          Element ''was'' [] (Some ''true'') [], Element ''was'' [] (Some ''false'') []])"
    by (simp add: priv_as_xml_def switch_def switch_property_info root_tag_def
        priv_as_xml_attributes_def priv_as_xml_attribute_def priv_as_xml_property.simps
        skipped_key_def dict_get_def plain_property_kinds plain_property_fields
        xml_name_def custom_name_def custom_names_def example_runtime_simps iter_items_def
        py_str_def lower_examples SubElement_text_def append_def)
next
  have legacy: "k_properties_as_attributes LegacySwitch = {}" "k_property_key_mappings LegacySwitch = []"
    "k_property_data_class_mappings LegacySwitch = []" "k_array_property_configuration LegacySwitch = []"
    by (simp_all add: LegacySwitch_def plain_class_def)
  show "XmlSerializableObject_as_xml (example_runtime empty_library) LegacySwitch legacy_switch None
     = Inr (Element ''LegacySwitch'' [] None [Element ''on'' [] (Some ''True'') []])"
    by (simp add: XmlSerializableObject_as_xml_def legacy_switch_def root_tag_def
        as_xml_attributes_def as_xml_attribute_def legacy_as_xml_property.simps
        skipped_key_def dict_get_def legacy key_mapping_def
        example_runtime_simps py_str_def SubElement_text_def append_def)
qed

section \<open>Unknown JSON keys\<close>

lemma from_json_kwargs_unfold:
  "from_json rt cls (PDict d) =
     (case from_json_kwargs rt cls d of Inl e \<Rightarrow> Inl e | Inr kwargs \<Rightarrow> k_init cls [] kwargs)"
  by (simp add: from_json.simps from_json_kwargs_def split: sum.splits)

lemma from_json_key_resolved:
  assumes "rt_formatter rt = Some f" and "JsonSerializableObject \<in> set (k_bases cls)"
  shows "from_json_key rt cls acc kv =
     Inr (case resolved_key f cls (fst kv) of
            None \<Rightarrow> dict_del acc (fst kv)
          | Some n \<Rightarrow> dict_set (dict_del acc (fst kv)) n (snd kv))"
  using assms
  by (simp add: from_json_key_def get_json_key_removals_def get_property_key_mappings_def
      is_SerializableObject_def formatter_decode_def resolved_key_def split: option.splits)

lemma from_json_keys_append:
  "from_json_keys rt cls (xs @ ys) acc =
     (case from_json_keys rt cls xs acc of
        Inl e \<Rightarrow> Inl e
      | Inr acc' \<Rightarrow> from_json_keys rt cls ys acc')"
  by (induction xs arbitrary: acc) (auto split: sum.splits)

lemma dict_get_dict_del: "dict_get (dict_del d k) n = (if n = k then None else dict_get d n)"
  by (induction d) (auto simp: dict_get_def dict_del_def)

lemma from_json_keys_total:
  assumes "rt_formatter rt = Some f" and "JsonSerializableObject \<in> set (k_bases cls)"
  shows "\<exists>acc'. from_json_keys rt cls d acc = Inr acc'"
  by (induction d arbitrary: acc) (auto simp: from_json_key_resolved [OF assms])

lemma from_json_keys_keep:
  assumes "rt_formatter rt = Some f" and "JsonSerializableObject \<in> set (k_bases cls)"
    and "from_json_keys rt cls post acc = Inr acc'"
    and "dict_get acc n = Some v"
    and "\<forall>kv\<in>set post. fst kv \<noteq> n \<and> resolved_key f cls (fst kv) \<noteq> Some n"
  shows "dict_get acc' n = Some v"
  using assms(3,4,5)
proof (induction post arbitrary: acc)
  case Nil
  then show ?case by simp
next
  case (Cons kv post)
  let ?acc1 = "case resolved_key f cls (fst kv) of
            None \<Rightarrow> dict_del acc (fst kv)
          | Some m \<Rightarrow> dict_set (dict_del acc (fst kv)) m (snd kv)"
  have rest: "from_json_keys rt cls post ?acc1 = Inr acc'"
    using Cons.prems(1) by (simp add: from_json_key_resolved [OF assms(1,2)])
  have "dict_get ?acc1 n = Some v"
    using Cons.prems(2,3)
    by (auto simp: dict_get_dict_set dict_get_dict_del split: option.splits)
  from Cons.IH [OF rest this] Cons.prems(3) show ?case by simp
qed

lemma from_json_values_keep:
  assumes "from_json_values rt cls acc = Inr kwargs"
    and "dict_get acc n = Some v"
    and "from_json_value rt cls n v = Inr v"
  shows "dict_get kwargs n = Some v"
  using assms(1,2)
proof (induction acc arbitrary: kwargs)
  case Nil
  then show ?case by (simp add: dict_get_def)
next
  case (Cons kv acc)
  from Cons.prems(1) obtain x rest' where
    x: "from_json_value rt cls (fst kv) (snd kv) = Inr x"
    and r: "from_json_values rt cls acc = Inr rest'"
    and kw: "kwargs = (fst kv, x) # rest'"
    by (auto split: sum.splits)
  show ?case
  proof (cases "fst kv = n")
    case True
    with Cons.prems(2) have "snd kv = v" by (cases kv) (simp add: dict_get_def)
    with True x assms(3) kw show ?thesis by (simp add: dict_get_def)
  next
    case False
    with Cons.prems(2) have "dict_get acc n = Some v" by (cases kv) (simp add: dict_get_def)
    from Cons.IH [OF r this] False kw show ?thesis by (simp add: dict_get_def)
  qed
qed

lemma from_json_value_unknown:
  assumes "is_SerializableObject cls"
    and "dict_get (k_property_data_class_mappings cls) n = None"
    and "dict_get (k_array_property_configuration cls) n = None"
  shows "from_json_value rt cls n v = Inr v"
  using assms
  by (simp add: from_json_value.simps get_property_data_class_mappings_def
      get_array_property_configuration_def)


text \<open>
  C8, amended. Let the class derive from \<^verbatim>\<open>JsonSerializableObject\<close> and the input mapping hold a
  key \<open>k\<close> with value \<open>v\<close> that is not among the key removals and whose decoded name is
  no custom name, has no data class mapping and no array configuration; let no other
  key of the input be, or resolve to, that decoded name. Then the decoder is the
  constructor applied to the keyword arguments it has built; whenever it builds them,
  they hold the decoded name with the value \<open>v\<close> untouched; and on the mapping that
  holds this key alone, \<^verbatim>\<open>_from_json\<close> and \<^verbatim>\<open>JsonSerializableObject.from_json\<close> are exactly
  the constructor call with that one keyword argument, so that any failure is the
  constructor's.
\<close>

theorem unknown_key_passed_to_constructor:
  assumes fmt: "rt_formatter rt = Some f"
    and base: "JsonSerializableObject \<in> set (k_bases cls)"
    and entry: "(k, v) \<in> set d"
    and keys: "distinct (map fst d)"
    and kept: "k \<notin> set (k_json_key_removals cls)"
    and unnamed: "key_of_value (k_property_key_mappings cls) (fmt_decode f k) = None"
    and unmapped: "dict_get (k_property_data_class_mappings cls) (fmt_decode f k) = None"
    and unconfigured: "dict_get (k_array_property_configuration cls) (fmt_decode f k) = None"
    and others: "\<forall>kv\<in>set d. fst kv \<noteq> k \<longrightarrow>
        fst kv \<noteq> fmt_decode f k \<and> resolved_key f cls (fst kv) \<noteq> Some (fmt_decode f k)"
  shows "priv_from_json rt cls (PDict d) =
           (case from_json_kwargs rt cls d of
              Inl e \<Rightarrow> Inl e
            | Inr kwargs \<Rightarrow> k_init cls [] kwargs)
       \<and> (\<forall>kwargs. from_json_kwargs rt cls d = Inr kwargs \<longrightarrow>
             dict_get kwargs (fmt_decode f k) = Some v)
       \<and> priv_from_json rt cls (PDict [(k, v)]) = k_init cls [] [(fmt_decode f k, v)]
       \<and> JsonSerializableObject_from_json rt cls (PDict [(k, v)])
           = k_init cls [] [(fmt_decode f k, v)]"
proof -
  let ?n = "fmt_decode f k"
  have nonempty: "is_SerializableObject cls" using base by (simp add: is_SerializableObject_def)
  have resolved: "resolved_key f cls k = Some ?n"
    using kept unnamed by (simp add: resolved_key_def)
  have untouched: "from_json_value rt cls ?n x = Inr x" for x
    by (rule from_json_value_unknown [OF nonempty unmapped unconfigured])
  have kw: "dict_get kwargs ?n = Some v" if built: "from_json_kwargs rt cls d = Inr kwargs" for kwargs
  proof -
    from entry obtain pre post where d: "d = pre @ (k, v) # post"
      by (auto dest: split_list)
    from from_json_keys_total [OF fmt base, of pre d] obtain acc1 where
      acc1: "from_json_keys rt cls pre d = Inr acc1" by blast
    let ?acc2 = "dict_set (dict_del acc1 k) ?n v"
    from built obtain acc where
      acc: "from_json_keys rt cls d d = Inr acc" and vals: "from_json_values rt cls acc = Inr kwargs"
      by (auto simp: from_json_kwargs_def split: sum.splits)
    have "from_json_keys rt cls (pre @ (k, v) # post) d = Inr acc"
      using acc d by simp
    then have post: "from_json_keys rt cls post ?acc2 = Inr acc"
      by (simp add: from_json_keys_append acc1 from_json_key_resolved [OF fmt base] resolved)
    have here: "dict_get ?acc2 ?n = Some v"
      by (simp add: dict_get_dict_set)
    have "\<forall>kv\<in>set post. fst kv \<noteq> k"
      using keys d by auto
    then have "\<forall>kv\<in>set post. fst kv \<noteq> ?n \<and> resolved_key f cls (fst kv) \<noteq> Some ?n"
      using others d by auto
    from from_json_keys_keep [OF fmt base post here this]
    have "dict_get acc ?n = Some v" .
    from from_json_values_keep [OF vals this untouched] show ?thesis .
  qed
  have single: "from_json rt cls (PDict [(k, v)]) = k_init cls [] [(?n, v)]"
    by (simp add: from_json_kwargs_unfold from_json_kwargs_def
        from_json_key_resolved [OF fmt base] resolved dict_del_def untouched)
  show ?thesis
    using kw single
    by (simp add: priv_from_json_def JsonSerializableObject_from_json_def from_json_kwargs_unfold)
qed

lemma Person_fields:
  "k_bases Person = [JsonSerializableObject]" "k_json_key_removals Person = []"
  "k_property_key_mappings Person = []" "k_property_data_class_mappings Person = []"
  "k_array_property_configuration Person = []"
  "k_init Person = strict_kwargs (CRef ''shop'' ''Person'' ''Person'') [''name'']"
  by (simp_all add: Person_def plain_class_def)

theorem unknown_key_passed_to_constructor_witness:
  "from_json_kwargs (example_runtime empty_library) Person
       [(''name'', PStr ''Ada''), (''nickname'', PStr ''al'')]
     = Inr [(''name'', PStr ''Ada''), (''nickname'', PStr ''al'')]
   \<and> priv_from_json (example_runtime empty_library) Person
       (PDict [(''name'', PStr ''Ada''), (''nickname'', PStr ''al'')])
     = Inl (TypeError ''got an unexpected keyword argument'')
   \<and> priv_from_json (example_runtime empty_library) Person (PDict [(''nickname'', PStr ''al'')])
     = Inl (TypeError ''got an unexpected keyword argument'')"
proof -
  let ?rt = "example_runtime empty_library"
  let ?d = "[(''name'', PStr ''Ada''), (''nickname'', PStr ''al'')]"
  have fmt: "rt_formatter ?rt = Some identity_formatter"
    by (simp add: example_runtime_def)
  have base: "JsonSerializableObject \<in> set (k_bases Person)"
    by (simp add: Person_fields)
  have dec: "fmt_decode identity_formatter x = x" for x
    by (simp add: identity_formatter_def)
  have h3: "(''nickname'', PStr ''al'') \<in> set ?d" by simp
  have h4: "distinct (map fst ?d)" by simp
  have h5: "''nickname'' \<notin> set (k_json_key_removals Person)" by (simp add: Person_fields)
  have h6: "key_of_value (k_property_key_mappings Person) (fmt_decode identity_formatter ''nickname'') = None"
    by (simp add: Person_fields)
  have h7: "dict_get (k_property_data_class_mappings Person) (fmt_decode identity_formatter ''nickname'') = None"
    by (simp add: Person_fields dict_get_def)
  have h8: "dict_get (k_array_property_configuration Person) (fmt_decode identity_formatter ''nickname'') = None"
    by (simp add: Person_fields dict_get_def)
  have h9: "\<forall>kv\<in>set ?d. fst kv \<noteq> ''nickname'' \<longrightarrow>
        fst kv \<noteq> fmt_decode identity_formatter ''nickname''
        \<and> resolved_key identity_formatter Person (fst kv)
            \<noteq> Some (fmt_decode identity_formatter ''nickname'')"
    by (simp add: dec resolved_key_def Person_fields)
  have kwargs: "from_json_kwargs ?rt Person ?d = Inr ?d"
    by (simp add: from_json_kwargs_def from_json_key_resolved [OF fmt base] resolved_key_def
        Person_fields dec dict_del_def from_json_value_unknown dict_get_def
        is_SerializableObject_def)
  have init: "k_init Person [] kw = strict_kwargs (CRef ''shop'' ''Person'' ''Person'') [''name''] [] kw" for kw
    by (simp add: Person_fields)
  show ?thesis
    using unknown_key_passed_to_constructor [OF fmt base h3 h4 h5 h6 h7 h8 h9]
    by (simp add: kwargs dec init strict_kwargs_def dict_keys_def)
qed

text \<open>
  C8, as stated, fails on two inputs. \<^verbatim>\<open>Box\<close> is registered for JSON and derives from
  no class of the library, so it has no \<^verbatim>\<open>get_json_key_removals\<close>: on a mapping with the
  one unknown key \<open>nickname\<close>, \<^verbatim>\<open>_from_json\<close> itself raises \<^verbatim>\<open>AttributeError\<close>, where the
  constructor would have taken the key. And with a formatter whose \<^verbatim>\<open>decode\<close> drops the
  first character, on the mapping with the keys \<open>id\<close> and \<open>d\<close>, the value 6 of the
  unknown key \<open>id\<close> is stored under \<open>d\<close> and then deleted by the pass over the key
  \<open>d\<close>: the keyword arguments hold neither \<open>d\<close> nor the value 6.
\<close>

theorem unknown_key_not_always_passed:
  "priv_from_json (example_runtime (register_klass empty_library Box None [JSON])) Box
       (PDict [(''nickname'', PStr ''al'')])
     = Inl (AttributeError ''get_json_key_removals'')
   \<and> k_init Box [] [(''nickname'', PStr ''al'')]
     = Inr (PObj (CRef ''shop'' ''Box'' ''Box'') [(''_nickname'', PStr ''al'')])
   \<and> from_json_kwargs tail_runtime Person [(''id'', PInt 6), (''d'', PInt 7)]
     = Inr [([], PInt 7)]"
proof (intro conjI)
  show "priv_from_json (example_runtime (register_klass empty_library Box None [JSON])) Box
       (PDict [(''nickname'', PStr ''al'')])
     = Inl (AttributeError ''get_json_key_removals'')"
    by (simp add: priv_from_json_def from_json.simps from_json_key_def
        get_json_key_removals_def Box_def plain_class_def)
  show "k_init Box [] [(''nickname'', PStr ''al'')]
     = Inr (PObj (CRef ''shop'' ''Box'' ''Box'') [(''_nickname'', PStr ''al'')])"
    by (simp add: Box_def plain_class_def store_kwargs_def)
  have fmt: "rt_formatter tail_runtime = Some tail_formatter"
    by (simp add: tail_runtime_def example_runtime_def)
  have base: "JsonSerializableObject \<in> set (k_bases Person)"
    by (simp add: Person_fields)
  have dec: "fmt_decode tail_formatter s = drop 1 s" for s
    by (simp add: tail_formatter_def)
  show "from_json_kwargs tail_runtime Person [(''id'', PInt 6), (''d'', PInt 7)]
     = Inr [([], PInt 7)]"
    by (simp add: from_json_kwargs_def from_json_key_resolved [OF fmt base] resolved_key_def
        Person_fields dec dict_del_def from_json_value_unknown dict_get_def
        is_SerializableObject_def)
qed

section \<open>JSON round trip\<close>



lemma default_value_plain:
  "default_value [(n, plain_property n t cfg)] n v = Inr v"
  by (simp add: default_value_def dict_get_def plain_property_fields)



lemma example_formatter:
  "rt_formatter (example_runtime lib) = Some identity_formatter"
  "fmt_decode identity_formatter x = x" "fmt_encode identity_formatter x = x"
  by (simp_all add: example_runtime_def identity_formatter_def)




















text \<open>
  A set comes back as a list, an enumeration member as its value, and a nested object
  of a registered class is not decoded at all: the class \<^verbatim>\<open>Crate\<close> maps its property to
  the class \<^verbatim>\<open>Box\<close>, whose \<^verbatim>\<open>from_json\<close> is the plain function that registration set on it,
  and \<^verbatim>\<open>klass.from_json(data=v)\<close> calls it without its first argument.
\<close>

lemma crate_round_trip_fails:
  "json_round_trip crate_runtime Crate crate
     = Inl (TypeError ''_from_json() missing 1 required positional argument: cls'')"
proof -
  have lib: "rt_library crate_runtime =
      register_klass (register_klass empty_library JsonBox None [JSON]) Crate None [JSON]"
    by (simp add: crate_runtime_def example_runtime_def)
  have enc: "encode_name crate_runtime n = n" for n
    by (simp add: encode_name_def crate_runtime_def example_runtime_def identity_formatter_def)
  have box_info: "property_info crate_runtime (CRef ''shop'' ''Box'' ''Box'')
      = [(''id'', plain_property ''id'' TInt None)]"
    by (simp add: property_info_def lib class_key_def
      register_klass_def is_klass_serializable_False Let_def JsonBox_def Crate_def plain_class_def
      qualified_class_name_def empty_library_def dict_get_dict_set
      add_property_def new_property_def setattr_def dict_get_def plain_property_def)
  have crate_info: "property_info crate_runtime (CRef ''shop'' ''Crate'' ''Crate'')
      = [(''box'', plain_property ''box'' (TClass ''Box'') None)]"
    by (simp add: property_info_def lib class_key_def
      register_klass_def is_klass_serializable_False Let_def JsonBox_def Crate_def plain_class_def
      qualified_class_name_def empty_library_def dict_get_dict_set
      add_property_def new_property_def setattr_def dict_get_def plain_property_def)
  have name: "json_name crate_runtime [(n, plain_property n t cfg)] n = n" for n t cfg
    by (simp add: json_name_def dict_get_def custom_name_def custom_names_def
      plain_property_fields enc)
  have document: "priv_as_json crate_runtime crate
      = Inr (PDict [(''box'', PDict [(''id'', PInt 1)])])"
    by (simp add: priv_as_json_def crate_def json_value.simps box_info crate_info
      skipped_key_def name default_value_plain)
  have fmt: "rt_formatter crate_runtime = Some identity_formatter"
    by (simp add: crate_runtime_def example_runtime_def)
  have base: "JsonSerializableObject \<in> set (k_bases Crate)"
    by (simp add: Crate_def plain_class_def)
  have injected: "getattr (rt_library crate_runtime) ''shop.Box'' ''from_json'' = Some Fn_from_json"
    by (simp add: lib getattr_register_klass getattr_empty_library qualified_class_name_def
        JsonBox_def Crate_def plain_class_def)
  have Crate_fields:
    "k_bases Crate = [JsonSerializableObject]" "k_json_key_removals Crate = []"
    "k_property_key_mappings Crate = []"
    "k_property_data_class_mappings Crate = [(''box'', MappedClass ''shop.Box'')]"
    by (simp_all add: Crate_def plain_class_def)
  have box: "rt_classes crate_runtime ''shop.Box'' = Some JsonBox"
    by (simp add: crate_runtime_def)
  have "priv_from_json crate_runtime Crate (PDict [(''box'', PDict [(''id'', PInt 1)])])
      = Inl (TypeError ''_from_json() missing 1 required positional argument: cls'')"
    by (simp add: priv_from_json_def from_json.simps
        from_json_key_resolved [OF fmt base] resolved_key_def example_formatter
        dict_del_def from_json_value.simps get_property_data_class_mappings_def
        from_json_item.simps from_json_method_def injected dict_get_def
        is_SerializableObject_def Crate_fields box)
  with document show ?thesis by (simp add: json_round_trip_def)
qed


section \<open>Unmapped elements and namespaces\<close>

lemma remove_all_prefix: "old \<noteq> [] \<Longrightarrow> remove_all old (old @ s) = remove_all old s"
  by (subst remove_all.simps) simp

lemma remove_all_no_brace:
  "CHR ''{'' \<notin> set s \<Longrightarrow> remove_all (CHR ''{'' # r) s = s"
proof (induction s)
  case Nil
  show ?case by (subst remove_all.simps) simp
next
  case (Cons c s)
  then have "c \<noteq> CHR ''{''" and rest: "remove_all (CHR ''{'' # r) s = s" by auto
  then show ?case by (subst remove_all.simps) (simp add: rest)
qed

lemma strip_namespace_own:
  "CHR ''{'' \<notin> set n \<Longrightarrow> strip_namespace ns (''{'' @ ns @ ''}'' @ n) = n"
  using remove_all_prefix [of "''{'' @ ns @ ''}''" n] remove_all_no_brace [of n "ns @ ''}''"]
  by (simp add: strip_namespace_def)

lemma strip_namespace_local:
  "CHR ''{'' \<notin> set n \<Longrightarrow> strip_namespace ns n = n"
  using remove_all_no_brace [of n "ns @ ''}''"] by (simp add: strip_namespace_def)

lemma strip_namespace_other:
  assumes "take (length ns + 2) t \<noteq> ''{'' @ ns @ ''}''" and "CHR ''{'' \<notin> set (tl t)"
  shows "strip_namespace ns t = t"
proof (cases t)
  case Nil
  then show ?thesis unfolding strip_namespace_def by (subst remove_all.simps) simp
next
  case (Cons c s)
  have "remove_all (CHR ''{'' # ns @ ''}'') s = s"
    using assms(2) Cons by (simp add: remove_all_no_brace)
  then show ?thesis
    unfolding strip_namespace_def using assms(1) Cons
    by (subst remove_all.simps) auto
qed

lemma from_xml_child_unmapped:
  assumes "rt_formatter rt = Some f"
    and "unmapped f cls (strip_namespace ns (e_tag c))"
  shows "from_xml_child rt cls ns c acc =
           Inl (ValueError (unmapped_message (strip_namespace ns (e_tag c)) (k_name cls)))"
  using assms
  by (simp add: from_xml_child.simps formatter_decode_def unmapped_def unconfigured_def)

lemma from_xml_child_attribute:
  assumes "rt_formatter rt = Some f"
    and "unconfigured f cls (strip_namespace ns (e_tag c))"
    and "mapped_name cls (fmt_decode f (strip_namespace ns (e_tag c))) \<in> set (k_dict cls)"
  shows "from_xml_child rt cls ns c acc =
           Inr (dict_set acc (mapped_name cls (fmt_decode f (strip_namespace ns (e_tag c))))
                  (scalar_of_text (e_text c)))"
  using assms
  by (simp add: from_xml_child.simps formatter_decode_def unconfigured_def)

lemma from_xml_children_append:
  "from_xml_children rt cls ns (xs @ ys) acc =
     (case from_xml_children rt cls ns xs acc of
        Inl e \<Rightarrow> Inl e
      | Inr acc' \<Rightarrow> from_xml_children rt cls ns ys acc')"
  by (induction xs arbitrary: acc) (auto split: sum.splits)

lemma from_xml_children_fail:
  assumes "rt_formatter rt = Some f"
    and "c \<in> set cs"
    and "unmapped f cls (strip_namespace ns (e_tag c))"
  shows "\<exists>err. from_xml_children rt cls ns cs acc = Inl err"
  using assms(2)
proof (induction cs arbitrary: acc)
  case Nil
  then show ?case by simp
next
  case (Cons x xs)
  show ?case
  proof (cases "from_xml_child rt cls ns x acc")
    case (Inl err)
    then show ?thesis by simp
  next
    case (Inr acc')
    with from_xml_child_unmapped [OF assms(1,3), of acc] have "x \<noteq> c" by auto
    with Cons.prems have "c \<in> set xs" by simp
    from Cons.IH [OF this, of acc'] Inr show ?thesis by simp
  qed
qed

text \<open>
  C2, amended. Let the formatter be set, the class derive from \<^verbatim>\<open>XmlSerializableObject\<close>,
  and the element have a child whose tag, the default namespace removed, is taken by no
  array configuration, no data class mapping and no attribute of the class. Then
  \<^verbatim>\<open>from_xml\<close> raises and constructs no object; and when the attributes and the children
  before that child decode, the error is the \<^verbatim>\<open>ValueError\<close> that names the tag and the
  class.
\<close>

theorem unmapped_element_rejected:
  assumes fmt: "rt_formatter rt = Some f"
    and derives: "XmlSerializableObject \<in> set (k_bases cls)"
    and child: "c \<in> set (e_children data)"
    and none: "unmapped f cls
        (strip_namespace (resolved_namespace rt data default_namespace) (e_tag c))"
  shows "(\<exists>err. XmlSerializableObject_from_xml rt cls data default_namespace = Inl err)
       \<and> (e_children data = pre @ c # post
          \<and> from_xml_attributes rt cls (e_attrib data) [] = Inr acc
          \<and> from_xml_children rt cls (resolved_namespace rt data default_namespace) pre
                (from_xml_text cls data acc) = Inr acc'
          \<longrightarrow> XmlSerializableObject_from_xml rt cls data default_namespace
                = Inl (ValueError (unmapped_message
                    (strip_namespace (resolved_namespace rt data default_namespace) (e_tag c))
                    (k_name cls))))"
proof (intro conjI impI)
  let ?ns = "resolved_namespace rt data default_namespace"
  show "\<exists>err. XmlSerializableObject_from_xml rt cls data default_namespace = Inl err"
  proof (cases "from_xml_attributes rt cls (e_attrib data) []")
    case (Inl err)
    then show ?thesis
      by (simp add: XmlSerializableObject_from_xml_def derives from_xml.simps)
  next
    case (Inr acc0)
    from from_xml_children_fail [OF fmt child none, of "from_xml_text cls data acc0"]
    obtain err where
      "from_xml_children rt cls ?ns (e_children data) (from_xml_text cls data acc0) = Inl err"
      by blast
    with Inr show ?thesis
      by (simp add: XmlSerializableObject_from_xml_def derives from_xml.simps)
  qed
next
  let ?ns = "resolved_namespace rt data default_namespace"
  assume a: "e_children data = pre @ c # post
      \<and> from_xml_attributes rt cls (e_attrib data) [] = Inr acc
      \<and> from_xml_children rt cls ?ns pre (from_xml_text cls data acc) = Inr acc'"
  have "from_xml_children rt cls ?ns (pre @ c # post) (from_xml_text cls data acc)
      = Inl (ValueError (unmapped_message (strip_namespace ?ns (e_tag c)) (k_name cls)))"
    using a by (simp add: from_xml_children_append from_xml_child_unmapped [OF fmt none])
  with a show "XmlSerializableObject_from_xml rt cls data default_namespace
      = Inl (ValueError (unmapped_message (strip_namespace ?ns (e_tag c)) (k_name cls)))"
    by (simp add: XmlSerializableObject_from_xml_def derives from_xml.simps)
qed

lemma Item_fields:
  "k_bases Item = [XmlSerializableObject]" "k_property_key_mappings Item = []"
  "k_array_property_configuration Item = []" "k_property_data_class_mappings Item = []"
  "k_dict Item = [''id'']" "k_name Item = ''Item''" "k_properties_as_attributes Item = {}"
  "k_init Item = store_kwargs (CRef ''shop'' ''Item'' ''Item'')"
  by (simp_all add: Item_def plain_class_def)

lemma scalar_of_text_examples:
  "scalar_of_text (Some ''7'') = PInt 7" "scalar_of_text None = PNone"
  by code_simp+

lemma Item_names:
  "mapped_name Item n = n"
  "unconfigured identity_formatter Item n"
  "unmapped identity_formatter Item n = (n \<noteq> ''id'')"
  by (simp_all add: mapped_name_def unmapped_def unconfigured_def Item_fields dict_get_def
      identity_formatter_def)

lemma no_start_ns:
  "resolved_namespace (example_runtime lib) data None = []"
  by (simp add: resolved_namespace_def inferred_namespace_def example_runtime_def dict_get_def)

theorem unmapped_element_rejected_witness:
  "XmlSerializableObject_from_xml (example_runtime empty_library) Item item_with_bogus None
     = Inl (ValueError (unmapped_message ''bogus'' ''Item''))"
proof -
  let ?rt = "example_runtime empty_library"
  let ?c = "Element ''bogus'' [] None []"
  let ?pre = "[Element ''id'' [] (Some ''7'') []]"
  have fmt: "rt_formatter ?rt = Some identity_formatter"
    by (simp add: example_runtime_def)
  have derives: "XmlSerializableObject \<in> set (k_bases Item)"
    by (simp add: Item_fields)
  have child: "?c \<in> set (e_children item_with_bogus)"
    by (simp add: item_with_bogus_def)
  have bogus: "strip_namespace [] ''bogus'' = ''bogus''" and ident: "strip_namespace [] ''id'' = ''id''"
    by (simp_all add: strip_namespace_local)
  have none: "unmapped identity_formatter Item
      (strip_namespace (resolved_namespace ?rt item_with_bogus None) (e_tag ?c))"
    by (simp add: no_start_ns bogus Item_names)
  have split: "e_children item_with_bogus = ?pre @ ?c # []"
    by (simp add: item_with_bogus_def)
  have attributes: "from_xml_attributes ?rt Item (e_attrib item_with_bogus) [] = Inr []"
    by (simp add: item_with_bogus_def)
  have dec: "fmt_decode identity_formatter x = x" for x
    by (simp add: identity_formatter_def)
  have "unconfigured identity_formatter Item
      (strip_namespace [] (e_tag (Element ''id'' [] (Some ''7'') [])))"
    by (simp add: Item_names)
  moreover have "mapped_name Item (fmt_decode identity_formatter
      (strip_namespace [] (e_tag (Element ''id'' [] (Some ''7'') [])))) \<in> set (k_dict Item)"
    by (simp add: ident dec Item_names Item_fields)
  ultimately have "from_xml_child ?rt Item [] (Element ''id'' [] (Some ''7'') []) []
      = Inr [(''id'', PInt 7)]"
    using from_xml_child_attribute [OF fmt, of Item "[]" "Element ''id'' [] (Some ''7'') []" "[]"]
    by (simp add: ident dec Item_names scalar_of_text_examples)
  then have before: "from_xml_children ?rt Item (resolved_namespace ?rt item_with_bogus None) ?pre
      (from_xml_text Item item_with_bogus []) = Inr [(''id'', PInt 7)]"
    by (simp add: no_start_ns from_xml_text_def item_with_bogus_def)
  from unmapped_element_rejected [OF fmt derives child none, of ?pre "[]" "[]" "[(''id'', PInt 7)]"]
    split attributes before
  show ?thesis
    by (simp add: no_start_ns bogus Item_fields)
qed

text \<open>
  C2, as stated, fails: the class configures its property \<^verbatim>\<open>items\<close> as a FLAT array, and
  the document has a child \<open>items\<close> before the child \<open>bogus\<close>, which nothing of the
  class takes. The pass over the first child raises, and the error names neither the
  unmapped tag nor the class.
\<close>

theorem unmapped_element_other_error:
  "XmlSerializableObject_from_xml (example_runtime empty_library) (ConfiguredShelf FLAT)
       shelf_with_bogus None
     = Inl (ValueError ''Only NESTED expected here!'')
   \<and> unmapped identity_formatter (ConfiguredShelf FLAT) ''bogus''"
proof
  have fields: "k_bases (ConfiguredShelf FLAT) = [XmlSerializableObject]"
    "k_dict (ConfiguredShelf FLAT) = [''items'']"
    by (simp_all add: ConfiguredShelf_def LegacyShelf_def plain_class_def)
  have items: "strip_namespace [] ''items'' = ''items''"
    by (simp add: strip_namespace_local)
  show "XmlSerializableObject_from_xml (example_runtime empty_library) (ConfiguredShelf FLAT)
       shelf_with_bogus None
     = Inl (ValueError ''Only NESTED expected here!'')"
    by (simp add: XmlSerializableObject_from_xml_def fields from_xml.simps shelf_with_bogus_def
        no_start_ns from_xml_text_def from_xml_child.simps items example_runtime_simps
        mapped_name_def ConfiguredShelf_fields dict_get_def)
  show "unmapped identity_formatter (ConfiguredShelf FLAT) ''bogus''"
    by (simp add: unmapped_def unconfigured_def mapped_name_def ConfiguredShelf_fields
        dict_get_def identity_formatter_def fields)
qed

text \<open>
  C7, amended. With no default namespace given, \<^verbatim>\<open>from_xml\<close> decodes as with the URI that
  the \<^verbatim>\<open>start-ns\<close> events bind to the prefix \<^verbatim>\<open>ns0\<close> (the last such event), and as with
  the empty namespace when none binds it: no other prefix counts, declared first or not.
  A child tagged \<open>{ns}n\<close>, \<open>ns\<close> being the default namespace, is compared as \<open>n\<close>:
  when \<open>n\<close> is an attribute of the class that no configuration takes, its text is
  stored under \<open>n\<close>, and when nothing takes \<open>n\<close>, the error names \<open>n\<close>. A child whose
  tag does not start with \<open>{ns}\<close> is compared with its tag as it is, namespace included.
\<close>

theorem default_namespace_is_bound_to_ns0:
  assumes fmt: "rt_formatter rt = Some f"
  shows "XmlSerializableObject_from_xml rt cls data None =
           XmlSerializableObject_from_xml rt cls data
             (Some (case dict_get (rev (rt_start_ns rt data)) ''ns0'' of
                      Some uri \<Rightarrow> uri
                    | None \<Rightarrow> []))
       \<and> (e_tag c = ''{'' @ ns @ ''}'' @ n \<and> CHR ''{'' \<notin> set n \<and> unconfigured f cls n
            \<and> mapped_name cls (fmt_decode f n) \<in> set (k_dict cls)
          \<longrightarrow> from_xml_child rt cls ns c acc =
                Inr (dict_set acc (mapped_name cls (fmt_decode f n)) (scalar_of_text (e_text c))))
       \<and> (e_tag c2 = ''{'' @ ns @ ''}'' @ n2 \<and> CHR ''{'' \<notin> set n2 \<and> unmapped f cls n2
          \<longrightarrow> from_xml_child rt cls ns c2 acc =
                Inl (ValueError (unmapped_message n2 (k_name cls))))
       \<and> (take (length ns + 2) (e_tag c3) \<noteq> ''{'' @ ns @ ''}''
            \<and> CHR ''{'' \<notin> set (tl (e_tag c3)) \<and> unmapped f cls (e_tag c3)
          \<longrightarrow> from_xml_child rt cls ns c3 acc =
                Inl (ValueError (unmapped_message (e_tag c3) (k_name cls))))"
proof (intro conjI impI)
  show "XmlSerializableObject_from_xml rt cls data None =
           XmlSerializableObject_from_xml rt cls data
             (Some (case dict_get (rev (rt_start_ns rt data)) ''ns0'' of
                      Some uri \<Rightarrow> uri
                    | None \<Rightarrow> []))"
  proof -
    have eq: "resolved_namespace rt data None =
        resolved_namespace rt data
          (Some (case dict_get (rev (rt_start_ns rt data)) ''ns0'' of
                   Some uri \<Rightarrow> uri
                 | None \<Rightarrow> []))"
      by (simp add: resolved_namespace_def inferred_namespace_def)
    show ?thesis
      unfolding XmlSerializableObject_from_xml_def from_xml.simps eq by (rule refl)
  qed
next
  assume a: "e_tag c = ''{'' @ ns @ ''}'' @ n \<and> CHR ''{'' \<notin> set n \<and> unconfigured f cls n
      \<and> mapped_name cls (fmt_decode f n) \<in> set (k_dict cls)"
  then have "strip_namespace ns (e_tag c) = n"
    using strip_namespace_own [of n ns] by simp
  with a from_xml_child_attribute [OF fmt, of cls ns c acc]
  show "from_xml_child rt cls ns c acc =
      Inr (dict_set acc (mapped_name cls (fmt_decode f n)) (scalar_of_text (e_text c)))"
    by simp
next
  assume a: "e_tag c2 = ''{'' @ ns @ ''}'' @ n2 \<and> CHR ''{'' \<notin> set n2 \<and> unmapped f cls n2"
  then have "strip_namespace ns (e_tag c2) = n2"
    using strip_namespace_own [of n2 ns] by simp
  with a from_xml_child_unmapped [OF fmt, of cls ns c2 acc]
  show "from_xml_child rt cls ns c2 acc = Inl (ValueError (unmapped_message n2 (k_name cls)))"
    by simp
next
  assume a: "take (length ns + 2) (e_tag c3) \<noteq> ''{'' @ ns @ ''}''
      \<and> CHR ''{'' \<notin> set (tl (e_tag c3)) \<and> unmapped f cls (e_tag c3)"
  then have "strip_namespace ns (e_tag c3) = e_tag c3"
    using strip_namespace_other [of ns "e_tag c3"] by simp
  with a from_xml_child_unmapped [OF fmt, of cls ns c3 acc]
  show "from_xml_child rt cls ns c3 acc =
      Inl (ValueError (unmapped_message (e_tag c3) (k_name cls)))"
    by simp
qed

lemma generated_runtime_simps:
  "rt_formatter generated_runtime = Some identity_formatter"
  "rt_start_ns generated_runtime data = [(''ns0'', ''urn:shop'')]"
  by (simp_all add: generated_runtime_def example_runtime_def)

lemma html_runtime_simps:
  "rt_formatter html_runtime = Some identity_formatter"
  "rt_start_ns html_runtime data = [(''html'', xhtml)]"
  by (simp_all add: html_runtime_def example_runtime_def)

lemma from_xml_one_child:
  "from_xml rt Item (Element t [] None [c]) (Some ns) =
     (case from_xml_child rt Item ns c [] of
        Inl e \<Rightarrow> Inl e
      | Inr kwargs \<Rightarrow> store_kwargs (CRef ''shop'' ''Item'' ''Item'') [] kwargs)"
  by (simp add: from_xml.simps from_xml_text_def resolved_namespace_def Item_fields
      split: sum.splits)

theorem default_namespace_is_bound_to_ns0_witness:
  "XmlSerializableObject_from_xml generated_runtime Item (item_element ''urn:shop'') None
     = Inr (PObj (CRef ''shop'' ''Item'' ''Item'') [(''_id'', PInt 7)])
   \<and> from_xml_child generated_runtime Item ''urn:shop''
         (Element ''{urn:shop}bogus'' [] None []) []
     = Inl (ValueError (unmapped_message ''bogus'' ''Item''))
   \<and> from_xml_child generated_runtime Item ''urn:shop''
         (Element ''{urn:other}id'' [] None []) []
     = Inl (ValueError (unmapped_message ''{urn:other}id'' ''Item''))"
proof -
  let ?rt = "generated_runtime"
  let ?c = "Element ''{urn:shop}id'' [] (Some ''7'') []"
  let ?c2 = "Element ''{urn:shop}bogus'' [] None []"
  let ?c3 = "Element ''{urn:other}id'' [] None []"
  have a1: "e_tag ?c = ''{'' @ ''urn:shop'' @ ''}'' @ ''id''" by simp
  have a2: "CHR ''{'' \<notin> set ''id''" by simp
  have a3: "mapped_name Item (fmt_decode identity_formatter ''id'') \<in> set (k_dict Item)"
    by (simp add: Item_names Item_fields identity_formatter_def)
  have b1: "e_tag ?c2 = ''{'' @ ''urn:shop'' @ ''}'' @ ''bogus''" by simp
  have b2: "CHR ''{'' \<notin> set ''bogus''" by simp
  have b3: "unmapped identity_formatter Item ''bogus''" by (simp add: Item_names)
  have c1: "take (length ''urn:shop'' + 2) (e_tag ?c3) \<noteq> ''{'' @ ''urn:shop'' @ ''}''" by simp
  have c2: "CHR ''{'' \<notin> set (tl (e_tag ?c3))" by simp
  have c3: "unmapped identity_formatter Item (e_tag ?c3)" by (simp add: Item_names)
  from default_namespace_is_bound_to_ns0 [OF generated_runtime_simps(1),
      of Item "item_element ''urn:shop''" ?c "''urn:shop''" "''id''" "[]" ?c2 "''bogus''" ?c3]
    a1 a2 Item_names(2) a3 b1 b2 b3 c1 c2 c3
  have "XmlSerializableObject_from_xml ?rt Item (item_element ''urn:shop'') None =
        XmlSerializableObject_from_xml ?rt Item (item_element ''urn:shop'') (Some ''urn:shop'')
      \<and> from_xml_child ?rt Item ''urn:shop'' ?c [] = Inr [(''id'', PInt 7)]
      \<and> from_xml_child ?rt Item ''urn:shop'' ?c2 [] = Inl (ValueError (unmapped_message ''bogus'' ''Item''))
      \<and> from_xml_child ?rt Item ''urn:shop'' ?c3 []
          = Inl (ValueError (unmapped_message ''{urn:other}id'' ''Item''))"
    by (simp add: generated_runtime_simps dict_get_def Item_names Item_fields
        identity_formatter_def scalar_of_text_examples)
  then show ?thesis
    by (simp add: XmlSerializableObject_from_xml_def Item_fields item_element_def
        from_xml_one_child store_kwargs_def)
qed

text \<open>
  C7, as stated, fails: the element is in the XHTML namespace, which \<^verbatim>\<open>ElementTree\<close> writes
  under the prefix \<^verbatim>\<open>html\<close>, so the one namespace declared is bound to \<^verbatim>\<open>html\<close> and none to
  \<^verbatim>\<open>ns0\<close>. The namespace inferred is empty, the tag of the child is compared with its
  namespace on it, and \<^verbatim>\<open>from_xml\<close> raises; given that namespace, it decodes the element.
\<close>

theorem first_declared_prefix_is_not_used:
  "rt_start_ns html_runtime (item_element xhtml) = [(''html'', xhtml)]
   \<and> XmlSerializableObject_from_xml html_runtime Item (item_element xhtml) None
     = Inl (ValueError (unmapped_message (''{'' @ xhtml @ ''}id'') ''Item''))
   \<and> XmlSerializableObject_from_xml html_runtime Item (item_element xhtml) (Some xhtml)
     = Inr (PObj (CRef ''shop'' ''Item'' ''Item'') [(''_id'', PInt 7)])"
proof (intro conjI)
  let ?t = "''{'' @ xhtml @ ''}id''"
  show "rt_start_ns html_runtime (item_element xhtml) = [(''html'', xhtml)]"
    by (simp add: html_runtime_simps)
  have left: "strip_namespace [] ?t = ?t"
    by (rule strip_namespace_other) (simp_all add: xhtml_def)
  have "unmapped identity_formatter Item ?t"
    by (simp add: Item_names)
  then have "unmapped identity_formatter Item (strip_namespace [] (e_tag (Element ?t [] (Some ''7'') [])))"
    using left by simp
  from from_xml_child_unmapped [OF html_runtime_simps(1) this, of "[]"] left
  have child: "from_xml_child html_runtime Item [] (Element ?t [] (Some ''7'') []) []
      = Inl (ValueError (unmapped_message ?t ''Item''))"
    by (simp add: Item_fields)
  have eq: "resolved_namespace html_runtime (item_element xhtml) None =
      resolved_namespace html_runtime (item_element xhtml) (Some [])"
    by (simp add: resolved_namespace_def inferred_namespace_def html_runtime_simps dict_get_def)
  have "XmlSerializableObject_from_xml html_runtime Item (item_element xhtml) None
      = XmlSerializableObject_from_xml html_runtime Item (item_element xhtml) (Some [])"
    unfolding XmlSerializableObject_from_xml_def from_xml.simps eq by (rule refl)
  then show "XmlSerializableObject_from_xml html_runtime Item (item_element xhtml) None
     = Inl (ValueError (unmapped_message ?t ''Item''))"
    using child
    by (simp add: XmlSerializableObject_from_xml_def Item_fields item_element_def
        from_xml_one_child)
  have brace: "CHR ''{'' \<notin> set ''id''" by simp
  have "strip_namespace xhtml (e_tag (Element ?t [] (Some ''7'') [])) = ''id''"
    using strip_namespace_own [OF brace, of xhtml] by simp
  with from_xml_child_attribute [OF html_runtime_simps(1), of Item xhtml
      "Element ?t [] (Some ''7'') []" "[]"]
  have "from_xml_child html_runtime Item xhtml (Element ?t [] (Some ''7'') []) []
      = Inr [(''id'', PInt 7)]"
    by (simp add: Item_names Item_fields example_formatter(2) scalar_of_text_examples)
  then show "XmlSerializableObject_from_xml html_runtime Item (item_element xhtml) (Some xhtml)
     = Inr (PObj (CRef ''shop'' ''Item'' ''Item'') [(''_id'', PInt 7)])"
    by (simp add: XmlSerializableObject_from_xml_def Item_fields item_element_def
        from_xml_one_child store_kwargs_def)
qed

end
